theory Spec2Isabelle
  imports Main
begin

section \<open>Float8 training configuration (torchao/float8/config.py)\<close>

text \<open>
  A shallow embedding of the configuration classes of \<^verbatim>\<open>torchao/float8/config.py\<close>.
  \<^verbatim>\<open>CastConfig\<close> instances are Python objects that \<^verbatim>\<open>Float8LinearConfig.__post_init__\<close>
  writes to through \<^verbatim>\<open>object.__setattr__\<close>, and one instance may be passed in several
  roles, so they live in an explicit store: a reference is an address, the store maps
  addresses to objects, and a constructor allocates the next free address.
  Every function that can raise returns \<open>error + 'a\<close> together with the store it leaves
  behind, since writes made before an exception stay.
\<close>

subsection \<open>Enumerations\<close>

datatype ScalingType = DYNAMIC | DISABLED

fun ScalingType_short_str :: "ScalingType \<Rightarrow> string" where
  "ScalingType_short_str DYNAMIC = ''dyn''"
| "ScalingType_short_str DISABLED = ''dis''"

datatype ScalingGranularity = TENSORWISE | AXISWISE

fun ScalingGranularity_short_str :: "ScalingGranularity \<Rightarrow> string" where
  "ScalingGranularity_short_str TENSORWISE = ''ten''"
| "ScalingGranularity_short_str AXISWISE = ''axs''"

text \<open>\<^verbatim>\<open>str\<close> of an enumeration member, as an f-string prints it.\<close>

fun ScalingGranularity_str :: "ScalingGranularity \<Rightarrow> string" where
  "ScalingGranularity_str TENSORWISE = ''ScalingGranularity.TENSORWISE''"
| "ScalingGranularity_str AXISWISE = ''ScalingGranularity.AXISWISE''"

subsection \<open>The tensor element types of the library\<close>

text \<open>
  \<^verbatim>\<open>torch.dtype\<close> is a closed set of objects of the tensor library; the members below are
  the four 8-bit floating-point types and the usual wider floating-point and integer
  types, with the two attributes the configuration reads.
\<close>

datatype dtype =
    float8_e4m3fn | float8_e5m2 | float8_e4m3fnuz | float8_e5m2fnuz
  | float16 | bfloat16 | float32 | float64
  | uint8 | int8 | int16 | int32 | int64 | bool_dtype

fun is_floating_point :: "dtype \<Rightarrow> bool" where
  "is_floating_point float8_e4m3fn = True"
| "is_floating_point float8_e5m2 = True"
| "is_floating_point float8_e4m3fnuz = True"
| "is_floating_point float8_e5m2fnuz = True"
| "is_floating_point float16 = True"
| "is_floating_point bfloat16 = True"
| "is_floating_point float32 = True"
| "is_floating_point float64 = True"
| "is_floating_point uint8 = False"
| "is_floating_point int8 = False"
| "is_floating_point int16 = False"
| "is_floating_point int32 = False"
| "is_floating_point int64 = False"
| "is_floating_point bool_dtype = False"

fun itemsize :: "dtype \<Rightarrow> nat" where
  "itemsize float8_e4m3fn = 1"
| "itemsize float8_e5m2 = 1"
| "itemsize float8_e4m3fnuz = 1"
| "itemsize float8_e5m2fnuz = 1"
| "itemsize float16 = 2"
| "itemsize bfloat16 = 2"
| "itemsize float32 = 4"
| "itemsize float64 = 8"
| "itemsize uint8 = 1"
| "itemsize int8 = 1"
| "itemsize int16 = 2"
| "itemsize int32 = 4"
| "itemsize int64 = 8"
| "itemsize bool_dtype = 1"

subsection \<open>The preferred float8 type pair\<close>

text \<open>
  What \<^verbatim>\<open>Float8TypeConfig.__post_init__\<close> asks the platform:
  the truth value of \<^verbatim>\<open>torch.version.hip\<close>, \<^verbatim>\<open>torch.cuda.is_available()\<close> and
  \<^verbatim>\<open>is_MI300()\<close>.
\<close>

record platform =
  version_hip :: bool
  cuda_is_available :: bool
  is_MI300 :: bool

record Float8TypeConfig =
  tc_e4m3_dtype :: dtype
  tc_e5m2_dtype :: dtype

definition Float8TypeConfig_new :: "platform \<Rightarrow> Float8TypeConfig" where
  "Float8TypeConfig_new p =
     (let self = \<lparr>tc_e4m3_dtype = float8_e4m3fn, tc_e5m2_dtype = float8_e5m2\<rparr>
      in if version_hip p \<and> cuda_is_available p \<and> is_MI300 p
         then self\<lparr>tc_e4m3_dtype := float8_e4m3fnuz, tc_e5m2_dtype := float8_e5m2fnuz\<rparr>
         else self)"

definition type_config :: "platform \<Rightarrow> Float8TypeConfig" where
  "type_config p = Float8TypeConfig_new p"

definition e4m3_dtype :: "platform \<Rightarrow> dtype" where
  "e4m3_dtype p = tc_e4m3_dtype (type_config p)"

definition e5m2_dtype :: "platform \<Rightarrow> dtype" where
  "e5m2_dtype p = tc_e5m2_dtype (type_config p)"

subsection \<open>Errors, objects and the store\<close>

datatype error = AssertionError string | KeyError | ValueError string

record CastConfig =
  scaling_type :: ScalingType
  scaling_granularity :: ScalingGranularity
  target_dtype :: "dtype option"

type_synonym addr = nat

text \<open>
  The store: the \<^verbatim>\<open>CastConfig\<close> objects by address, the next address to allocate, and
  the lines written to the logger.
\<close>

record world =
  objs :: "addr \<Rightarrow> CastConfig"
  next_addr :: addr
  logged :: "string list"

text \<open>\<^verbatim>\<open>object.__setattr__(cc, "target_dtype", d)\<close>: a write to one field of one object.\<close>

definition setattr_target_dtype :: "addr \<Rightarrow> dtype \<Rightarrow> world \<Rightarrow> world" where
  "setattr_target_dtype cc d w =
     w\<lparr>objs := (objs w)(cc := (objs w cc)\<lparr>target_dtype := Some d\<rparr>)\<rparr>"

text \<open>Sequencing of computations that may raise and that change the store.\<close>

definition bind ::
  "(world \<Rightarrow> (error + 'a) \<times> world) \<Rightarrow> ('a \<Rightarrow> world \<Rightarrow> (error + 'b) \<times> world) \<Rightarrow>
   world \<Rightarrow> (error + 'b) \<times> world" where
  "bind m f w = (case m w of (Inl e, w') \<Rightarrow> (Inl e, w') | (Inr x, w') \<Rightarrow> f x w')"

subsection \<open>CastConfig\<close>

definition CastConfig_post_init :: "CastConfig \<Rightarrow> error + unit" where
  "CastConfig_post_init self =
     (if scaling_granularity self = AXISWISE \<and> scaling_type self \<noteq> DYNAMIC
      then Inl (AssertionError
        ''only dynamic scaling type is supported for axiswise scaling granularity'')
      else if \<not> (target_dtype self = None \<or>
                 (case target_dtype self of
                    None \<Rightarrow> False
                  | Some d \<Rightarrow> is_floating_point d \<and> itemsize d = 1))
      then Inl (AssertionError ''must specify a 8-bit floating-point dtype'')
      else Inr ())"

text \<open>
  The constructor: the three fields are set, \<^verbatim>\<open>__post_init__\<close> runs, and the new object
  is in the store only when it returned.
\<close>

definition CastConfig_new ::
  "ScalingType \<Rightarrow> ScalingGranularity \<Rightarrow> dtype option \<Rightarrow> world \<Rightarrow> (error + addr) \<times> world" where
  "CastConfig_new st gran dt w =
     (let self = \<lparr>scaling_type = st, scaling_granularity = gran, target_dtype = dt\<rparr>
      in case CastConfig_post_init self of
           Inl e \<Rightarrow> (Inl e, w)
         | Inr _ \<Rightarrow> (Inr (next_addr w),
                     w\<lparr>objs := (objs w)(next_addr w := self), next_addr := Suc (next_addr w)\<rparr>))"

text \<open>
  \<^verbatim>\<open>short_str\<close>: the dictionary \<^verbatim>\<open>{e4m3_dtype: "e4m3", e5m2_dtype: "e5m2"}\<close> is indexed
  with the target type; a key that is not there raises \<^verbatim>\<open>KeyError\<close>.
\<close>

definition CastConfig_short_str :: "platform \<Rightarrow> CastConfig \<Rightarrow> error + string" where
  "CastConfig_short_str p self =
     (case (Map.empty(Some (e4m3_dtype p) \<mapsto> ''e4m3'', Some (e5m2_dtype p) \<mapsto> ''e5m2''))
             (target_dtype self) of
        None \<Rightarrow> Inl KeyError
      | Some dt \<Rightarrow> Inr (ScalingType_short_str (scaling_type self) @ ''_'' @
                        ScalingGranularity_short_str (scaling_granularity self) @ ''_'' @ dt))"

subsection \<open>Float8GemmConfig and Float8LinearConfig\<close>

record Float8GemmConfig =
  use_fast_accum :: bool

text \<open>
  The fields of \<^verbatim>\<open>Float8LinearConfig\<close>. A cast configuration is a reference to a
  \<^verbatim>\<open>CastConfig\<close> object; the three \<^verbatim>\<open>Optional\<close> ones may be \<^verbatim>\<open>None\<close>.
\<close>

record Float8LinearConfig =
  cast_config_input :: addr
  cast_config_input_for_grad_weight :: "addr option"
  cast_config_weight :: addr
  cast_config_weight_for_grad_input :: "addr option"
  cast_config_grad_output :: addr
  cast_config_grad_output_for_grad_weight :: "addr option"
  gemm_config_output :: Float8GemmConfig
  gemm_config_grad_input :: Float8GemmConfig
  gemm_config_grad_weight :: Float8GemmConfig
  enable_fsdp_float8_all_gather :: bool
  pad_inner_dim :: bool
  emulate :: bool
  force_recompute_fp8_weight_in_bwd :: bool
  round_scales_to_power_of_2 :: bool

text \<open>
  The class body evaluates \<^verbatim>\<open>CastConfig()\<close> three times, once for each default value, when
  the module is imported; no \<^verbatim>\<open>CastConfig\<close> exists before. The three objects are shared
  by every \<^verbatim>\<open>Float8LinearConfig\<close> built without the corresponding argument.
\<close>

definition empty_world :: world where
  "empty_world =
     \<lparr>objs = (\<lambda>_. \<lparr>scaling_type = DYNAMIC, scaling_granularity = TENSORWISE,
                     target_dtype = None\<rparr>),
      next_addr = 0, logged = []\<rparr>"

definition module_import :: world where
  "module_import =
     snd (bind (CastConfig_new DYNAMIC TENSORWISE None) (\<lambda>_.
          bind (CastConfig_new DYNAMIC TENSORWISE None) (\<lambda>_.
          CastConfig_new DYNAMIC TENSORWISE None)) empty_world)"

definition Float8LinearConfig_defaults :: Float8LinearConfig where
  "Float8LinearConfig_defaults =
     \<lparr>cast_config_input = 0,
      cast_config_input_for_grad_weight = None,
      cast_config_weight = 1,
      cast_config_weight_for_grad_input = None,
      cast_config_grad_output = 2,
      cast_config_grad_output_for_grad_weight = None,
      gemm_config_output = \<lparr>use_fast_accum = True\<rparr>,
      gemm_config_grad_input = \<lparr>use_fast_accum = False\<rparr>,
      gemm_config_grad_weight = \<lparr>use_fast_accum = False\<rparr>,
      enable_fsdp_float8_all_gather = False,
      pad_inner_dim = False,
      emulate = False,
      force_recompute_fp8_weight_in_bwd = False,
      round_scales_to_power_of_2 = False\<rparr>"

text \<open>The first step of \<^verbatim>\<open>__post_init__\<close>: an override that is \<^verbatim>\<open>None\<close> becomes the primary.\<close>

definition populate_overrides :: "Float8LinearConfig \<Rightarrow> Float8LinearConfig" where
  "populate_overrides self =
     (let self1 = (if cast_config_input_for_grad_weight self = None
                   then self\<lparr>cast_config_input_for_grad_weight := Some (cast_config_input self)\<rparr>
                   else self);
          self2 = (if cast_config_weight_for_grad_input self1 = None
                   then self1\<lparr>cast_config_weight_for_grad_input := Some (cast_config_weight self1)\<rparr>
                   else self1);
          self3 = (if cast_config_grad_output_for_grad_weight self2 = None
                   then self2\<lparr>cast_config_grad_output_for_grad_weight :=
                                 Some (cast_config_grad_output self2)\<rparr>
                   else self2)
      in self3)"

text \<open>The messages of the three assertions, as the f-strings build them.\<close>

definition fsdp_message :: "ScalingGranularity \<Rightarrow> string" where
  "fsdp_message g =
     ''enable_fsdp_float8_all_gather only supports tensorwise scaling granularity, got ''
     @ ScalingGranularity_str g"

definition precision_message :: "string \<Rightarrow> string" where
  "precision_message gemm_name = ''incompatible operand precision for '' @ gemm_name"

definition dtype_message :: "string \<Rightarrow> string" where
  "dtype_message operand_name =
     operand_name @ '' must be cast to the same dtype in both matmuls it's used in''"

text \<open>
  The loop over the three gemms. As in the source, both flags are read from \<open>cc1\<close>.
\<close>

fun check_operand_precision :: "(addr \<times> addr \<times> string) list \<Rightarrow> world \<Rightarrow> error + unit" where
  "check_operand_precision [] w = Inr ()"
| "check_operand_precision ((cc1, cc2, gemm_name) # rest) w =
     (let is_disabled_1 = (scaling_type (objs w cc1) = DISABLED);
          is_disabled_2 = (scaling_type (objs w cc1) = DISABLED)
      in if is_disabled_1 = is_disabled_2
         then check_operand_precision rest w
         else Inl (AssertionError (precision_message gemm_name)))"

text \<open>
  \<^verbatim>\<open>if cc.target_dtype is None: object.__setattr__(cc, "target_dtype", default_dtype)\<close>
\<close>

definition default_target_dtype :: "addr \<Rightarrow> dtype \<Rightarrow> world \<Rightarrow> world" where
  "default_target_dtype cc default_dtype w =
     (if target_dtype (objs w cc) = None
      then setattr_target_dtype cc default_dtype w else w)"

text \<open>
  The loop over the three operands: a target type that is \<^verbatim>\<open>None\<close> is written into the
  object, first for \<open>cc1\<close> and then for \<open>cc2\<close>; then the two objects must carry the same
  type.
\<close>

fun resolve_target_dtypes ::
  "(addr \<times> addr \<times> string \<times> dtype) list \<Rightarrow> world \<Rightarrow> (error + unit) \<times> world" where
  "resolve_target_dtypes [] w = (Inr (), w)"
| "resolve_target_dtypes ((cc1, cc2, operand_name, default_dtype) # rest) w =
     (let w1 = default_target_dtype cc1 default_dtype w;
          w2 = default_target_dtype cc2 default_dtype w1
      in if target_dtype (objs w2 cc1) = target_dtype (objs w2 cc2)
         then resolve_target_dtypes rest w2
         else (Inl (AssertionError (dtype_message operand_name)), w2))"

definition deprecation_warning :: string where
  "deprecation_warning =
     ''`config.force_recompute_fp8_weight_in_bwd` is deprecated and will be removed in a future release. Please see https://github.com/pytorch/ao/issues/2251 for more details.''"

text \<open>
  The two tables the loops of \<^verbatim>\<open>__post_init__\<close> run over, built from the fields after the
  overrides are populated (\<open>cc_i\<close>, \<open>cc_w\<close>, \<open>cc_go\<close>, \<open>cc_i_gw\<close>, \<open>cc_w_gi\<close>,
  \<open>cc_go_gw\<close> in the source).
\<close>

definition gemm_operands :: "Float8LinearConfig \<Rightarrow> (addr \<times> addr \<times> string) list" where
  "gemm_operands self =
     (let cc_i = cast_config_input self;
          cc_w = cast_config_weight self;
          cc_go = cast_config_grad_output self;
          cc_i_gw = the (cast_config_input_for_grad_weight self);
          cc_w_gi = the (cast_config_weight_for_grad_input self);
          cc_go_gw = the (cast_config_grad_output_for_grad_weight self)
      in [(cc_i, cc_w, ''output''),
          (cc_go, cc_w_gi, ''grad_input''),
          (cc_i_gw, cc_go_gw, ''grad_weight'')])"

definition operand_casts ::
  "platform \<Rightarrow> Float8LinearConfig \<Rightarrow> (addr \<times> addr \<times> string \<times> dtype) list" where
  "operand_casts p self =
     (let cc_i = cast_config_input self;
          cc_w = cast_config_weight self;
          cc_go = cast_config_grad_output self;
          cc_i_gw = the (cast_config_input_for_grad_weight self);
          cc_w_gi = the (cast_config_weight_for_grad_input self);
          cc_go_gw = the (cast_config_grad_output_for_grad_weight self)
      in [(cc_i, cc_i_gw, ''input'', e4m3_dtype p),
          (cc_w, cc_w_gi, ''weight'', e4m3_dtype p),
          (cc_go, cc_go_gw, ''grad_output'', e5m2_dtype p)])"

definition Float8LinearConfig_post_init ::
  "platform \<Rightarrow> Float8LinearConfig \<Rightarrow> world \<Rightarrow> (error + Float8LinearConfig) \<times> world" where
  "Float8LinearConfig_post_init p self0 w =
     (let self = populate_overrides self0
      in if scaling_granularity (objs w (cast_config_weight self)) \<noteq> TENSORWISE
            \<and> enable_fsdp_float8_all_gather self
         then (Inl (AssertionError
                 (fsdp_message (scaling_granularity (objs w (cast_config_weight self))))), w)
         else
           case check_operand_precision (gemm_operands self) w of
             Inl e \<Rightarrow> (Inl e, w)
           | Inr _ \<Rightarrow>
              (case resolve_target_dtypes (operand_casts p self) w of
                 (Inl e, w') \<Rightarrow> (Inl e, w')
               | (Inr _, w') \<Rightarrow>
                   (Inr self,
                    if force_recompute_fp8_weight_in_bwd self
                    then w'\<lparr>logged := logged w' @ [deprecation_warning]\<rparr>
                    else w')))"

text \<open>
  The generated constructor stores the arguments in the fields and calls
  \<^verbatim>\<open>__post_init__\<close>.
\<close>

definition Float8LinearConfig_new ::
  "platform \<Rightarrow> Float8LinearConfig \<Rightarrow> world \<Rightarrow> (error + Float8LinearConfig) \<times> world" where
  "Float8LinearConfig_new p args w = Float8LinearConfig_post_init p args w"

subsection \<open>Recipes\<close>

datatype Float8LinearRecipeName = RECIPE_TENSORWISE | RECIPE_ROWWISE | RECIPE_ROWWISE_WITH_GW_HP

fun recipe_value :: "Float8LinearRecipeName \<Rightarrow> string" where
  "recipe_value RECIPE_TENSORWISE = ''tensorwise''"
| "recipe_value RECIPE_ROWWISE = ''rowwise''"
| "recipe_value RECIPE_ROWWISE_WITH_GW_HP = ''rowwise_with_gw_hp''"

fun recipe_str :: "Float8LinearRecipeName \<Rightarrow> string" where
  "recipe_str RECIPE_TENSORWISE = ''Float8LinearRecipeName.TENSORWISE''"
| "recipe_str RECIPE_ROWWISE = ''Float8LinearRecipeName.ROWWISE''"
| "recipe_str RECIPE_ROWWISE_WITH_GW_HP = ''Float8LinearRecipeName.ROWWISE_WITH_GW_HP''"

text \<open>Iterating over the enumeration class yields its members in definition order.\<close>

definition recipe_members :: "Float8LinearRecipeName list" where
  "recipe_members = [RECIPE_TENSORWISE, RECIPE_ROWWISE, RECIPE_ROWWISE_WITH_GW_HP]"

text \<open>
  \<^verbatim>\<open>repr\<close> of a string without quotes, backslashes or control characters (the recipe
  values are such strings), and \<^verbatim>\<open>str\<close> of a list of them.
\<close>

definition repr_str :: "string \<Rightarrow> string" where
  "repr_str s = [CHR 0x27] @ s @ [CHR 0x27]"

fun join_comma :: "string list \<Rightarrow> string" where
  "join_comma [] = []"
| "join_comma [s] = s"
| "join_comma (s # t # rest) = s @ '', '' @ join_comma (t # rest)"

definition str_list :: "string list \<Rightarrow> string" where
  "str_list xs = ''['' @ join_comma (map repr_str xs) @ '']''"

text \<open>\<^verbatim>\<open>Float8LinearRecipeName(s)\<close>: the member whose value is \<open>s\<close>, or \<^verbatim>\<open>ValueError\<close>.\<close>

definition recipe_of_value :: "string \<Rightarrow> error + Float8LinearRecipeName" where
  "recipe_of_value s =
     (case find (\<lambda>n. recipe_value n = s) recipe_members of
        Some n \<Rightarrow> Inr n
      | None \<Rightarrow> Inl (ValueError (repr_str s @ '' is not a valid Float8LinearRecipeName'')))"

text \<open>The argument of \<^verbatim>\<open>from_recipe_name\<close>: a member of the enumeration or a string.\<close>

datatype recipe_arg = Name Float8LinearRecipeName | Str string

definition normalize_recipe_name :: "recipe_arg \<Rightarrow> error + Float8LinearRecipeName" where
  "normalize_recipe_name recipe_name =
     (case recipe_name of
        Str s \<Rightarrow>
          (let valid_names = map recipe_value recipe_members
           in if s \<in> set valid_names
              then recipe_of_value s
              else Inl (AssertionError
                     (''recipe_name '' @ s @ '' not in valid names '' @ str_list valid_names)))
      | Name n \<Rightarrow> Inr n)"

definition from_recipe_name ::
  "platform \<Rightarrow> recipe_arg \<Rightarrow> world \<Rightarrow> (error + Float8LinearConfig) \<times> world" where
  "from_recipe_name p recipe_name0 w =
     (case normalize_recipe_name recipe_name0 of
        Inl e \<Rightarrow> (Inl e, w)
      | Inr recipe_name \<Rightarrow>
          if recipe_name = RECIPE_TENSORWISE then
            Float8LinearConfig_new p Float8LinearConfig_defaults w
          else if recipe_name = RECIPE_ROWWISE then
            bind (CastConfig_new DYNAMIC AXISWISE (Some (e4m3_dtype p))) (\<lambda>cc_i.
            bind (CastConfig_new DYNAMIC AXISWISE (Some (e4m3_dtype p))) (\<lambda>cc_w.
            bind (CastConfig_new DYNAMIC AXISWISE (Some (e4m3_dtype p))) (\<lambda>cc_go.
            Float8LinearConfig_new p
              (Float8LinearConfig_defaults
                 \<lparr>cast_config_input := cc_i,
                  cast_config_weight := cc_w,
                  cast_config_grad_output := cc_go,
                  round_scales_to_power_of_2 := True\<rparr>)))) w
          else if recipe_name = RECIPE_ROWWISE_WITH_GW_HP then
            bind (CastConfig_new DYNAMIC AXISWISE None) (\<lambda>cc_i.
            bind (CastConfig_new DYNAMIC AXISWISE None) (\<lambda>cc_w.
            bind (CastConfig_new DYNAMIC AXISWISE (Some (e4m3_dtype p))) (\<lambda>cc_go.
            bind (CastConfig_new DYNAMIC TENSORWISE None) (\<lambda>cc_w_gi.
            bind (CastConfig_new DISABLED TENSORWISE None) (\<lambda>cc_i_gw.
            bind (CastConfig_new DISABLED TENSORWISE (Some (e4m3_dtype p))) (\<lambda>cc_go_gw.
            Float8LinearConfig_new p
              (Float8LinearConfig_defaults
                 \<lparr>cast_config_input := cc_i,
                  cast_config_weight := cc_w,
                  cast_config_grad_output := cc_go,
                  cast_config_input_for_grad_weight := Some cc_i_gw,
                  cast_config_weight_for_grad_input := Some cc_w_gi,
                  cast_config_grad_output_for_grad_weight := Some cc_go_gw\<rparr>))))))) w
          else (Inl (AssertionError (''unknown recipe_name '' @ recipe_str recipe_name)), w))"

subsection \<open>A concrete session\<close>

text \<open>
  A platform without ROCm, and the store after
  \<^verbatim>\<open>c3 = CastConfig()\<close>,
  \<^verbatim>\<open>c4 = CastConfig(scaling_type=ScalingType.DISABLED)\<close>,
  \<^verbatim>\<open>c5 = CastConfig(scaling_granularity=ScalingGranularity.AXISWISE)\<close>,
  \<^verbatim>\<open>c6 = CastConfig(target_dtype=torch.float8_e5m2)\<close> and
  \<^verbatim>\<open>c7 = CastConfig(target_dtype=torch.float8_e4m3fn)\<close>
  have run in a fresh interpreter that has imported the module: the new objects are at
  the addresses 3 to 7, after the three default objects of the class body.
\<close>

definition cuda_platform :: platform where
  "cuda_platform = \<lparr>version_hip = False, cuda_is_available = True, is_MI300 = False\<rparr>"

definition session_store :: world where
  "session_store =
     snd (bind (CastConfig_new DYNAMIC TENSORWISE None) (\<lambda>_.
          bind (CastConfig_new DISABLED TENSORWISE None) (\<lambda>_.
          bind (CastConfig_new DYNAMIC AXISWISE None) (\<lambda>_.
          bind (CastConfig_new DYNAMIC TENSORWISE (Some float8_e5m2)) (\<lambda>_.
          CastConfig_new DYNAMIC TENSORWISE (Some float8_e4m3fn))))) module_import)"

section \<open>Properties\<close>

subsection \<open>The store and the loop over the operands\<close>

lemma objs_setattr:
  "objs (setattr_target_dtype c d w) a =
     (if a = c then (objs w c)\<lparr>target_dtype := Some d\<rparr> else objs w a)"
  by (simp add: setattr_target_dtype_def)

lemma default_target_dtype_frame:
  "next_addr (default_target_dtype c d w) = next_addr w"
  "logged (default_target_dtype c d w) = logged w"
  "scaling_type (objs (default_target_dtype c d w) a) = scaling_type (objs w a)"
  "scaling_granularity (objs (default_target_dtype c d w) a) = scaling_granularity (objs w a)"
  by (simp_all add: default_target_dtype_def setattr_target_dtype_def)

lemma target_dtype_default:
  "target_dtype (objs (default_target_dtype c d w) a) =
     (if a = c \<and> target_dtype (objs w c) = None then Some d else target_dtype (objs w a))"
  by (simp add: default_target_dtype_def setattr_target_dtype_def)


lemma objs_default_set:
  "target_dtype (objs w a) \<noteq> None \<Longrightarrow> objs (default_target_dtype c d w) a = objs w a"
  by (auto simp: default_target_dtype_def setattr_target_dtype_def)

lemma check_operand_precision_passes: "check_operand_precision l w = Inr ()"
  by (induction l w rule: check_operand_precision.induct) simp_all

lemma resolve_frame:
  "resolve_target_dtypes l w = (r, w') \<Longrightarrow>
     next_addr w' = next_addr w \<and> logged w' = logged w \<and>
     scaling_type (objs w' a) = scaling_type (objs w a) \<and>
     scaling_granularity (objs w' a) = scaling_granularity (objs w a)"
proof (induction l arbitrary: w)
  case Nil
  then show ?case by simp
next
  case (Cons x rest)
  obtain cc1 cc2 n d where x: "x = (cc1, cc2, n, d)" by (cases x) auto
  let ?w2 = "default_target_dtype cc2 d (default_target_dtype cc1 d w)"
  show ?case
  proof (cases "target_dtype (objs ?w2 cc1) = target_dtype (objs ?w2 cc2)")
    case True
    with Cons.prems x have "resolve_target_dtypes rest ?w2 = (r, w')" by (simp add: Let_def)
    from Cons.IH [OF this] show ?thesis by (simp add: default_target_dtype_frame)
  next
    case False
    with Cons.prems x have "w' = ?w2" by (simp add: Let_def)
    then show ?thesis by (simp add: default_target_dtype_frame)
  qed
qed

lemma resolve_Cons_success:
  "resolve_target_dtypes ((cc1, cc2, n, d) # rest) w = (Inr u, w') \<Longrightarrow>
     target_dtype (objs (default_target_dtype cc2 d (default_target_dtype cc1 d w)) cc1) =
     target_dtype (objs (default_target_dtype cc2 d (default_target_dtype cc1 d w)) cc2) \<and>
     resolve_target_dtypes rest (default_target_dtype cc2 d (default_target_dtype cc1 d w))
       = (Inr u, w')"
  by (simp add: Let_def split: if_splits)

lemma resolve_keeps_set:
  "resolve_target_dtypes l w = (r, w') \<Longrightarrow> target_dtype (objs w a) \<noteq> None \<Longrightarrow>
     objs w' a = objs w a"
proof (induction l arbitrary: w)
  case Nil
  then show ?case by simp
next
  case (Cons x rest)
  obtain cc1 cc2 n d where x: "x = (cc1, cc2, n, d)" by (cases x) auto
  let ?w2 = "default_target_dtype cc2 d (default_target_dtype cc1 d w)"
  have same: "objs ?w2 a = objs w a"
    using Cons.prems(2) by (simp add: objs_default_set)
  show ?case
  proof (cases "target_dtype (objs ?w2 cc1) = target_dtype (objs ?w2 cc2)")
    case True
    with Cons.prems x have run: "resolve_target_dtypes rest ?w2 = (r, w')"
      by (simp add: Let_def)
    have "target_dtype (objs ?w2 a) \<noteq> None" using same Cons.prems(2) by simp
    from Cons.IH [OF run this] same show ?thesis by simp
  next
    case False
    with Cons.prems x have "w' = ?w2" by (simp add: Let_def)
    with same show ?thesis by simp
  qed
qed


lemma resolve_success_resolved:
  "resolve_target_dtypes l w = (Inr u, w') \<Longrightarrow> (c1, c2, n, d) \<in> set l \<Longrightarrow>
     target_dtype (objs w' c1) = target_dtype (objs w' c2) \<and> target_dtype (objs w' c1) \<noteq> None"
proof (induction l arbitrary: w)
  case Nil
  then show ?case by simp
next
  case (Cons x rest)
  obtain cc1 cc2 m e where x: "x = (cc1, cc2, m, e)" by (cases x) auto
  let ?w2 = "default_target_dtype cc2 e (default_target_dtype cc1 e w)"
  from Cons.prems(1) x
  have "resolve_target_dtypes ((cc1, cc2, m, e) # rest) w = (Inr u, w')" by simp
  from resolve_Cons_success [OF this]
  have eq: "target_dtype (objs ?w2 cc1) = target_dtype (objs ?w2 cc2)"
    and run: "resolve_target_dtypes rest ?w2 = (Inr u, w')" by simp_all
  show ?case
  proof (cases "(c1, c2, n, d) = x")
    case True
    then have c: "c1 = cc1" "c2 = cc2" using x by auto
    have set1: "target_dtype (objs ?w2 cc1) \<noteq> None"
      by (simp add: target_dtype_default)
    then have set2: "target_dtype (objs ?w2 cc2) \<noteq> None" using eq by simp
    have "objs w' cc1 = objs ?w2 cc1" using resolve_keeps_set [OF run set1] .
    moreover have "objs w' cc2 = objs ?w2 cc2" using resolve_keeps_set [OF run set2] .
    ultimately show ?thesis using eq set1 c by simp
  next
    case False
    with Cons.prems(2) have "(c1, c2, n, d) \<in> set rest" by auto
    from Cons.IH [OF run this] show ?thesis .
  qed
qed

lemma resolve_fixed:
  "\<forall>(c1, c2, n, d) \<in> set l.
      target_dtype (objs w c1) = target_dtype (objs w c2) \<and> target_dtype (objs w c1) \<noteq> None \<Longrightarrow>
   resolve_target_dtypes l w = (Inr (), w)"
proof (induction l)
  case Nil
  then show ?case by simp
next
  case (Cons x rest)
  obtain cc1 cc2 m e where x: "x = (cc1, cc2, m, e)" by (cases x) auto
  from Cons.prems x
  have "target_dtype (objs w cc1) = target_dtype (objs w cc2) \<and>
        target_dtype (objs w cc1) \<noteq> None" by fastforce
  then have h: "target_dtype (objs w cc1) = target_dtype (objs w cc2)"
    "target_dtype (objs w cc1) \<noteq> None" by blast+
  then have d1: "default_target_dtype cc1 e w = w" by (auto simp: default_target_dtype_def)
  from h have "target_dtype (objs w cc2) \<noteq> None" by metis
  then have d2: "default_target_dtype cc2 e w = w" by (auto simp: default_target_dtype_def)
  have "resolve_target_dtypes rest w = (Inr (), w)" using Cons by simp
  then show ?case using x h(1) by (simp add: Let_def d1 d2)
qed

lemma resolve_default_at:
  "resolve_target_dtypes (pre @ (c1, c2, n, d) # post) w = (Inr u, w') \<Longrightarrow>
   a = c1 \<or> a = c2 \<Longrightarrow>
   \<forall>(x1, x2, m, e) \<in> set pre. a \<noteq> x1 \<and> a \<noteq> x2 \<Longrightarrow>
   target_dtype (objs w a) = None \<Longrightarrow>
   target_dtype (objs w' a) = Some d"
proof (induction pre arbitrary: w)
  case Nil
  let ?w2 = "default_target_dtype c2 d (default_target_dtype c1 d w)"
  from Nil.prems(1) have "resolve_target_dtypes ((c1, c2, n, d) # post) w = (Inr u, w')"
    by simp
  from resolve_Cons_success [OF this]
  have run: "resolve_target_dtypes post ?w2 = (Inr u, w')" by simp
  have t: "target_dtype (objs ?w2 a) = Some d"
    using Nil.prems(2,4) by (auto simp: target_dtype_default)
  then have "objs w' a = objs ?w2 a" using resolve_keeps_set [OF run] by simp
  with t show ?case by simp
next
  case (Cons x pre)
  obtain cc1 cc2 m e where x: "x = (cc1, cc2, m, e)" by (cases x) auto
  let ?w2 = "default_target_dtype cc2 e (default_target_dtype cc1 e w)"
  from Cons.prems(1) x
  have "resolve_target_dtypes ((cc1, cc2, m, e) # (pre @ (c1, c2, n, d) # post)) w = (Inr u, w')"
    by simp
  from resolve_Cons_success [OF this]
  have run: "resolve_target_dtypes (pre @ (c1, c2, n, d) # post) ?w2 = (Inr u, w')" by simp
  from Cons.prems(3) x have ne: "a \<noteq> cc1" "a \<noteq> cc2"
    and rest: "\<forall>(x1, x2, m, e) \<in> set pre. a \<noteq> x1 \<and> a \<noteq> x2" by auto
  have "target_dtype (objs ?w2 a) = None"
    using ne Cons.prems(4) by (simp add: target_dtype_default)
  from Cons.IH [OF run Cons.prems(2) rest this] show ?case .
qed

lemma resolve_three_defaults:
  assumes run: "resolve_target_dtypes [(a1, b1, n1, d1), (a2, b2, n2, d2), (a3, b3, n3, d3)] w
                  = (Inr u, w')"
    and unset: "target_dtype (objs w a) = None"
  shows "a = a1 \<or> a = b1 \<Longrightarrow> target_dtype (objs w' a) = Some d1"
    and "a \<noteq> a1 \<Longrightarrow> a \<noteq> b1 \<Longrightarrow> a = a2 \<or> a = b2 \<Longrightarrow> target_dtype (objs w' a) = Some d2"
    and "a \<noteq> a1 \<Longrightarrow> a \<noteq> b1 \<Longrightarrow> a \<noteq> a2 \<Longrightarrow> a \<noteq> b2 \<Longrightarrow> a = a3 \<or> a = b3 \<Longrightarrow>
           target_dtype (objs w' a) = Some d3"
proof -
  show "a = a1 \<or> a = b1 \<Longrightarrow> target_dtype (objs w' a) = Some d1"
    using resolve_default_at [of "[]" a1 b1 n1 d1 "[(a2, b2, n2, d2), (a3, b3, n3, d3)]" w u w' a]
      run unset by simp
  show "a \<noteq> a1 \<Longrightarrow> a \<noteq> b1 \<Longrightarrow> a = a2 \<or> a = b2 \<Longrightarrow> target_dtype (objs w' a) = Some d2"
    using resolve_default_at [of "[(a1, b1, n1, d1)]" a2 b2 n2 d2 "[(a3, b3, n3, d3)]" w u w' a]
      run unset by simp
  show "a \<noteq> a1 \<Longrightarrow> a \<noteq> b1 \<Longrightarrow> a \<noteq> a2 \<Longrightarrow> a \<noteq> b2 \<Longrightarrow> a = a3 \<or> a = b3 \<Longrightarrow>
           target_dtype (objs w' a) = Some d3"
    using resolve_default_at [of "[(a1, b1, n1, d1), (a2, b2, n2, d2)]" a3 b3 n3 d3 "[]" w u w' a]
      run unset by simp
qed

lemma resolve_mismatch_fails:
  "(c1, c2, n, d) \<in> set l \<Longrightarrow> target_dtype (objs w c1) = Some t1 \<Longrightarrow>
   target_dtype (objs w c2) = Some t2 \<Longrightarrow> t1 \<noteq> t2 \<Longrightarrow>
   isl (fst (resolve_target_dtypes l w))"
proof -
  assume mem: "(c1, c2, n, d) \<in> set l" and t: "target_dtype (objs w c1) = Some t1"
    "target_dtype (objs w c2) = Some t2" "t1 \<noteq> t2"
  show ?thesis
  proof (rule ccontr)
    assume "\<not> isl (fst (resolve_target_dtypes l w))"
    then obtain w' where run: "resolve_target_dtypes l w = (Inr (), w')"
      by (cases "resolve_target_dtypes l w"; cases "fst (resolve_target_dtypes l w)") auto
    from resolve_success_resolved [OF run mem]
    have eq: "target_dtype (objs w' c1) = target_dtype (objs w' c2)" by simp
    have "objs w' c1 = objs w c1" using resolve_keeps_set [OF run] t(1) by simp
    moreover have "objs w' c2 = objs w c2" using resolve_keeps_set [OF run] t(2) by simp
    ultimately show False using eq t by simp
  qed
qed

lemma resolve_error_message:
  "resolve_target_dtypes l w = (Inl e, w') \<Longrightarrow>
     \<exists>(c1, c2, n, d) \<in> set l.
        e = AssertionError (dtype_message n)"
proof (induction l arbitrary: w)
  case Nil
  then show ?case by simp
next
  case (Cons x rest)
  obtain cc1 cc2 m d where x: "x = (cc1, cc2, m, d)" by (cases x) auto
  let ?w2 = "default_target_dtype cc2 d (default_target_dtype cc1 d w)"
  show ?case
  proof (cases "target_dtype (objs ?w2 cc1) = target_dtype (objs ?w2 cc2)")
    case True
    with Cons.prems x have "resolve_target_dtypes rest ?w2 = (Inl e, w')"
      by (simp add: Let_def)
    from Cons.IH [OF this] show ?thesis by auto
  next
    case False
    with Cons.prems x show ?thesis by (simp add: Let_def)
  qed
qed


subsection \<open>CastConfig\<close>

lemma e4m3_dtype_cases: "e4m3_dtype p = float8_e4m3fn \<or> e4m3_dtype p = float8_e4m3fnuz"
  by (simp add: e4m3_dtype_def type_config_def Float8TypeConfig_new_def Let_def)

lemma e5m2_dtype_cases: "e5m2_dtype p = float8_e5m2 \<or> e5m2_dtype p = float8_e5m2fnuz"
  by (simp add: e5m2_dtype_def type_config_def Float8TypeConfig_new_def Let_def)

lemma e4m3_dtype_8bit: "is_floating_point (e4m3_dtype p) \<and> itemsize (e4m3_dtype p) = 1"
  using e4m3_dtype_cases [of p] by auto

lemma e4m3_neq_e5m2: "e4m3_dtype p \<noteq> e5m2_dtype p"
  by (simp add: e4m3_dtype_def e5m2_dtype_def type_config_def Float8TypeConfig_new_def Let_def)

lemma CastConfig_new_ok:
  "\<not> (gran = AXISWISE \<and> st \<noteq> DYNAMIC) \<Longrightarrow>
   (case dt of None \<Rightarrow> True | Some d \<Rightarrow> is_floating_point d \<and> itemsize d = 1) \<Longrightarrow>
   CastConfig_new st gran dt w =
     (Inr (next_addr w),
      w\<lparr>objs := (objs w)(next_addr w :=
             \<lparr>scaling_type = st, scaling_granularity = gran, target_dtype = dt\<rparr>),
        next_addr := Suc (next_addr w)\<rparr>)"
  by (auto simp: CastConfig_new_def CastConfig_post_init_def Let_def split: option.splits)

lemma CastConfig_new_fail:
  "(gran = AXISWISE \<and> st \<noteq> DYNAMIC) \<or>
   (\<exists>d. dt = Some d \<and> \<not> (is_floating_point d \<and> itemsize d = 1)) \<Longrightarrow>
   \<exists>msg. CastConfig_new st gran dt w = (Inl (AssertionError msg), w)"
  by (auto simp: CastConfig_new_def CastConfig_post_init_def Let_def split: option.splits)

lemma CastConfig_new_e4m3:
  "\<not> (gran = AXISWISE \<and> st \<noteq> DYNAMIC) \<Longrightarrow>
   CastConfig_new st gran (Some (e4m3_dtype p)) w =
     (Inr (next_addr w),
      w\<lparr>objs := (objs w)(next_addr w :=
             \<lparr>scaling_type = st, scaling_granularity = gran,
              target_dtype = Some (e4m3_dtype p)\<rparr>),
        next_addr := Suc (next_addr w)\<rparr>)"
  by (rule CastConfig_new_ok) (simp_all add: e4m3_dtype_8bit)

lemma CastConfig_new_unset:
  "\<not> (gran = AXISWISE \<and> st \<noteq> DYNAMIC) \<Longrightarrow>
   CastConfig_new st gran None w =
     (Inr (next_addr w),
      w\<lparr>objs := (objs w)(next_addr w :=
             \<lparr>scaling_type = st, scaling_granularity = gran, target_dtype = None\<rparr>),
        next_addr := Suc (next_addr w)\<rparr>)"
  by (rule CastConfig_new_ok) simp_all

lemmas construction_defs =
  Float8LinearConfig_new_def Float8LinearConfig_post_init_def populate_overrides_def
  gemm_operands_def operand_casts_def Float8LinearConfig_defaults_def
  default_target_dtype_def setattr_target_dtype_def Let_def

lemmas session_defs =
  session_store_def module_import_def empty_world_def bind_def
  CastConfig_new_def CastConfig_post_init_def cuda_platform_def
  e4m3_dtype_def e5m2_dtype_def type_config_def Float8TypeConfig_new_def

text \<open>
  Claim C4. Constructing a \<^verbatim>\<open>CastConfig\<close> fails with an assertion error, leaving the store
  as it was, exactly when the granularity is axiswise and the scaling type is not dynamic,
  or a target type is given that is not an 8-bit floating-point type. In every other case
  (so for tensorwise granularity with any scaling type, and for an unset target type) the
  object is created with the three fields as given.
\<close>

theorem CastConfig_new_validation:
  "((\<exists>msg. CastConfig_new st gran dt w = (Inl (AssertionError msg), w)) \<longleftrightarrow>
      (gran = AXISWISE \<and> st \<noteq> DYNAMIC) \<or>
      (\<exists>d. dt = Some d \<and> \<not> (is_floating_point d \<and> itemsize d = 1)))
   \<and>
   ((\<exists>a w'. CastConfig_new st gran dt w = (Inr a, w') \<and>
        objs w' a = \<lparr>scaling_type = st, scaling_granularity = gran, target_dtype = dt\<rparr>) \<longleftrightarrow>
      (gran = TENSORWISE \<or> st = DYNAMIC) \<and>
      (dt = None \<or> (\<exists>d. dt = Some d \<and> is_floating_point d \<and> itemsize d = 1)))"
proof -
  let ?bad = "(gran = AXISWISE \<and> st \<noteq> DYNAMIC) \<or>
      (\<exists>d. dt = Some d \<and> \<not> (is_floating_point d \<and> itemsize d = 1))"
  have good: "\<not> ?bad \<longleftrightarrow> (gran = TENSORWISE \<or> st = DYNAMIC) \<and>
      (dt = None \<or> (\<exists>d. dt = Some d \<and> is_floating_point d \<and> itemsize d = 1))"
    by (cases gran; cases dt) auto
  show ?thesis
  proof (cases ?bad)
    case True
    from CastConfig_new_fail [OF True, of w] obtain msg where
      "CastConfig_new st gran dt w = (Inl (AssertionError msg), w)" by blast
    with True good show ?thesis by auto
  next
    case False
    then have "\<not> (gran = AXISWISE \<and> st \<noteq> DYNAMIC)"
      and "case dt of None \<Rightarrow> True | Some d \<Rightarrow> is_floating_point d \<and> itemsize d = 1"
      by (auto split: option.splits)
    from CastConfig_new_ok [OF this, of w] False good show ?thesis by auto
  qed
qed

theorem CastConfig_new_validation_witness:
  "(\<exists>msg. CastConfig_new DISABLED AXISWISE None module_import
            = (Inl (AssertionError msg), module_import)) \<and>
   (\<exists>msg. CastConfig_new DYNAMIC TENSORWISE (Some float32) module_import
            = (Inl (AssertionError msg), module_import)) \<and>
   (\<exists>a w'. CastConfig_new DISABLED TENSORWISE None module_import = (Inr a, w') \<and>
        objs w' a = \<lparr>scaling_type = DISABLED, scaling_granularity = TENSORWISE,
                      target_dtype = None\<rparr>)"
  using CastConfig_new_validation [of DISABLED AXISWISE None module_import]
    CastConfig_new_validation [of DYNAMIC TENSORWISE "Some float32" module_import]
    CastConfig_new_validation [of DISABLED TENSORWISE None module_import]
  by simp

subsection \<open>Construction of Float8LinearConfig\<close>

lemma populate_overrides_primary:
  "cast_config_input (populate_overrides a) = cast_config_input a"
  "cast_config_weight (populate_overrides a) = cast_config_weight a"
  "cast_config_grad_output (populate_overrides a) = cast_config_grad_output a"
  "enable_fsdp_float8_all_gather (populate_overrides a) = enable_fsdp_float8_all_gather a"
  "force_recompute_fp8_weight_in_bwd (populate_overrides a) = force_recompute_fp8_weight_in_bwd a"
  by (simp_all add: populate_overrides_def Let_def)

lemma populate_overrides_override:
  "cast_config_input_for_grad_weight (populate_overrides a) =
     Some (case cast_config_input_for_grad_weight a of None \<Rightarrow> cast_config_input a | Some x \<Rightarrow> x)"
  "cast_config_weight_for_grad_input (populate_overrides a) =
     Some (case cast_config_weight_for_grad_input a of None \<Rightarrow> cast_config_weight a | Some x \<Rightarrow> x)"
  "cast_config_grad_output_for_grad_weight (populate_overrides a) =
     Some (case cast_config_grad_output_for_grad_weight a of
             None \<Rightarrow> cast_config_grad_output a | Some x \<Rightarrow> x)"
  by (auto simp: populate_overrides_def Let_def split: option.splits)

lemma populate_overrides_idem: "populate_overrides (populate_overrides a) = populate_overrides a"
  by (simp add: populate_overrides_def Let_def)

lemma operand_casts_populated:
  "operand_casts p (populate_overrides args) =
     [(cast_config_input args,
       (case cast_config_input_for_grad_weight args of
          None \<Rightarrow> cast_config_input args | Some x \<Rightarrow> x), ''input'', e4m3_dtype p),
      (cast_config_weight args,
       (case cast_config_weight_for_grad_input args of
          None \<Rightarrow> cast_config_weight args | Some x \<Rightarrow> x), ''weight'', e4m3_dtype p),
      (cast_config_grad_output args,
       (case cast_config_grad_output_for_grad_weight args of
          None \<Rightarrow> cast_config_grad_output args | Some x \<Rightarrow> x), ''grad_output'', e5m2_dtype p)]"
  by (simp add: operand_casts_def Let_def populate_overrides_primary populate_overrides_override)

lemma operand_casts_names:
  "(c1, c2, n, d) \<in> set (operand_casts p self) \<Longrightarrow> n \<in> {''input'', ''weight'', ''grad_output''}"
  by (auto simp: operand_casts_def Let_def)

lemma messages_differ:
  "n \<in> {''input'', ''weight'', ''grad_output''} \<Longrightarrow> dtype_message n \<noteq> fsdp_message g"
  by (auto simp: dtype_message_def fsdp_message_def)

lemma post_init_fsdp:
  "scaling_granularity (objs w (cast_config_weight args)) \<noteq> TENSORWISE \<Longrightarrow>
   enable_fsdp_float8_all_gather args \<Longrightarrow>
   Float8LinearConfig_new p args w =
     (Inl (AssertionError
        (fsdp_message (scaling_granularity (objs w (cast_config_weight args))))), w)"
  by (simp add: Float8LinearConfig_new_def Float8LinearConfig_post_init_def Let_def
        populate_overrides_primary)

lemma post_init_resolve:
  "scaling_granularity (objs w (cast_config_weight args)) = TENSORWISE
      \<or> \<not> enable_fsdp_float8_all_gather args \<Longrightarrow>
   Float8LinearConfig_new p args w =
     (case resolve_target_dtypes (operand_casts p (populate_overrides args)) w of
        (Inl e, w') \<Rightarrow> (Inl e, w')
      | (Inr _, w') \<Rightarrow>
          (Inr (populate_overrides args),
           if force_recompute_fp8_weight_in_bwd args
           then w'\<lparr>logged := logged w' @ [deprecation_warning]\<rparr> else w'))"
  by (auto simp: Float8LinearConfig_new_def Float8LinearConfig_post_init_def Let_def
        populate_overrides_primary check_operand_precision_passes split: prod.splits sum.splits)

lemma post_init_success:
  assumes "Float8LinearConfig_new p args w = (Inr cfg, w')"
  shows "cfg = populate_overrides args"
    and "scaling_granularity (objs w (cast_config_weight args)) = TENSORWISE
            \<or> \<not> enable_fsdp_float8_all_gather args"
    and "\<exists>w1. resolve_target_dtypes (operand_casts p cfg) w = (Inr (), w1) \<and>
           objs w' = objs w1 \<and> next_addr w' = next_addr w1 \<and>
           w' = (if force_recompute_fp8_weight_in_bwd args
                 then w1\<lparr>logged := logged w1 @ [deprecation_warning]\<rparr> else w1)"
proof -
  show ok: "scaling_granularity (objs w (cast_config_weight args)) = TENSORWISE
            \<or> \<not> enable_fsdp_float8_all_gather args"
    using assms post_init_fsdp [of w args p] by auto
  obtain r1 w1 where run: "resolve_target_dtypes (operand_casts p (populate_overrides args)) w
      = (r1, w1)" by (cases "resolve_target_dtypes (operand_casts p (populate_overrides args)) w")
  from assms post_init_resolve [OF ok, of p] run
  have r: "r1 = Inr ()" "cfg = populate_overrides args"
     "w' = (if force_recompute_fp8_weight_in_bwd args
                 then w1\<lparr>logged := logged w1 @ [deprecation_warning]\<rparr> else w1)"
    by (auto split: sum.splits)
  show "cfg = populate_overrides args" by (rule r(2))
  show "\<exists>w1. resolve_target_dtypes (operand_casts p cfg) w = (Inr (), w1) \<and>
           objs w' = objs w1 \<and> next_addr w' = next_addr w1 \<and>
           w' = (if force_recompute_fp8_weight_in_bwd args
                 then w1\<lparr>logged := logged w1 @ [deprecation_warning]\<rparr> else w1)"
    using run r by auto
qed

lemma post_init_cases:
  assumes "Float8LinearConfig_new p args w = (r, w')"
  obtains
    (fsdp) "scaling_granularity (objs w (cast_config_weight args)) \<noteq> TENSORWISE"
      "enable_fsdp_float8_all_gather args" "w' = w"
      "r = Inl (AssertionError
             (fsdp_message (scaling_granularity (objs w (cast_config_weight args)))))"
  | (mismatch) e where
      "scaling_granularity (objs w (cast_config_weight args)) = TENSORWISE
         \<or> \<not> enable_fsdp_float8_all_gather args"
      "resolve_target_dtypes (operand_casts p (populate_overrides args)) w = (Inl e, w')"
      "r = Inl e"
  | (success) w1 where
      "scaling_granularity (objs w (cast_config_weight args)) = TENSORWISE
         \<or> \<not> enable_fsdp_float8_all_gather args"
      "resolve_target_dtypes (operand_casts p (populate_overrides args)) w = (Inr (), w1)"
      "r = Inr (populate_overrides args)"
      "w' = (if force_recompute_fp8_weight_in_bwd args
             then w1\<lparr>logged := logged w1 @ [deprecation_warning]\<rparr> else w1)"
proof (cases "scaling_granularity (objs w (cast_config_weight args)) \<noteq> TENSORWISE
    \<and> enable_fsdp_float8_all_gather args")
  case True
  with assms post_init_fsdp [of w args p] show ?thesis by (auto intro: fsdp)
next
  case False
  then have ok: "scaling_granularity (objs w (cast_config_weight args)) = TENSORWISE
         \<or> \<not> enable_fsdp_float8_all_gather args" by auto
  obtain r1 w1 where run:
    "resolve_target_dtypes (operand_casts p (populate_overrides args)) w = (r1, w1)"
    by (cases "resolve_target_dtypes (operand_casts p (populate_overrides args)) w")
  show ?thesis
  proof (cases r1)
    case (Inl e)
    with assms post_init_resolve [OF ok, of p] run have "r = Inl e" "w' = w1" by auto
    with ok run Inl show ?thesis by (auto intro: mismatch)
  next
    case (Inr u)
    with assms post_init_resolve [OF ok, of p] run
    have "r = Inr (populate_overrides args)"
      "w' = (if force_recompute_fp8_weight_in_bwd args
             then w1\<lparr>logged := logged w1 @ [deprecation_warning]\<rparr> else w1)" by auto
    with ok run Inr show ?thesis by (auto intro: success)
  qed
qed

lemma construction_resolves_targets:
  assumes ok: "Float8LinearConfig_new p args w = (Inr cfg, w')"
    and i: "cc_i = cast_config_input args"
    and w: "cc_w = cast_config_weight args"
    and go: "cc_go = cast_config_grad_output args"
    and i_gw: "cc_i_gw = (case cast_config_input_for_grad_weight args of
                            None \<Rightarrow> cast_config_input args | Some x \<Rightarrow> x)"
    and w_gi: "cc_w_gi = (case cast_config_weight_for_grad_input args of
                            None \<Rightarrow> cast_config_weight args | Some x \<Rightarrow> x)"
    and go_gw: "cc_go_gw = (case cast_config_grad_output_for_grad_weight args of
                            None \<Rightarrow> cast_config_grad_output args | Some x \<Rightarrow> x)"
  shows "target_dtype (objs w' cc_i) = target_dtype (objs w' cc_i_gw)"
    and "target_dtype (objs w' cc_w) = target_dtype (objs w' cc_w_gi)"
    and "target_dtype (objs w' cc_go) = target_dtype (objs w' cc_go_gw)"
    and "target_dtype (objs w a) = Some t \<Longrightarrow> target_dtype (objs w' a) = Some t"
    and "target_dtype (objs w a) = None \<Longrightarrow> a \<in> {cc_i, cc_i_gw, cc_w, cc_w_gi} \<Longrightarrow>
           target_dtype (objs w' a) = Some (e4m3_dtype p)"
    and "target_dtype (objs w a) = None \<Longrightarrow> a \<notin> {cc_i, cc_i_gw, cc_w, cc_w_gi} \<Longrightarrow>
           a \<in> {cc_go, cc_go_gw} \<Longrightarrow> target_dtype (objs w' a) = Some (e5m2_dtype p)"
proof -
  from post_init_success [OF ok] obtain w1 where
    cfg: "cfg = populate_overrides args"
    and run0: "resolve_target_dtypes (operand_casts p cfg) w = (Inr (), w1)"
    and objs: "objs w' = objs w1" by blast
  from run0 have run: "resolve_target_dtypes
      [(cc_i, cc_i_gw, ''input'', e4m3_dtype p),
       (cc_w, cc_w_gi, ''weight'', e4m3_dtype p),
       (cc_go, cc_go_gw, ''grad_output'', e5m2_dtype p)] w = (Inr (), w1)"
    by (simp add: cfg operand_casts_populated i w go i_gw w_gi go_gw)
  show "target_dtype (objs w' cc_i) = target_dtype (objs w' cc_i_gw)"
    using resolve_success_resolved [OF run, of cc_i cc_i_gw "''input''" "e4m3_dtype p"] objs
    by simp
  show "target_dtype (objs w' cc_w) = target_dtype (objs w' cc_w_gi)"
    using resolve_success_resolved [OF run, of cc_w cc_w_gi "''weight''" "e4m3_dtype p"] objs
    by simp
  show "target_dtype (objs w' cc_go) = target_dtype (objs w' cc_go_gw)"
    using resolve_success_resolved [OF run, of cc_go cc_go_gw "''grad_output''" "e5m2_dtype p"]
      objs by simp
  show "target_dtype (objs w a) = Some t \<Longrightarrow> target_dtype (objs w' a) = Some t"
    using resolve_keeps_set [OF run, of a] objs by simp
  show "target_dtype (objs w' a) = Some (e4m3_dtype p)"
    if "target_dtype (objs w a) = None" "a \<in> {cc_i, cc_i_gw, cc_w, cc_w_gi}"
  proof (cases "a = cc_i \<or> a = cc_i_gw")
    case True
    from resolve_three_defaults(1) [OF run that(1) True] objs show ?thesis by simp
  next
    case False
    with that(2) have "a \<noteq> cc_i" "a \<noteq> cc_i_gw" "a = cc_w \<or> a = cc_w_gi" by auto
    from resolve_three_defaults(2) [OF run that(1) this] objs show ?thesis by simp
  qed
  show "target_dtype (objs w' a) = Some (e5m2_dtype p)"
    if "target_dtype (objs w a) = None" "a \<notin> {cc_i, cc_i_gw, cc_w, cc_w_gi}"
      "a \<in> {cc_go, cc_go_gw}"
  proof -
    from that(2,3) have "a \<noteq> cc_i" "a \<noteq> cc_i_gw" "a \<noteq> cc_w" "a \<noteq> cc_w_gi"
      "a = cc_go \<or> a = cc_go_gw" by auto
    from resolve_three_defaults(3) [OF run that(1) this] objs show ?thesis by simp
  qed
qed

lemma construction_mismatch_fails:
  assumes "(c1, c2, n, d) \<in> set (operand_casts p (populate_overrides args))"
    and "target_dtype (objs w c1) = Some t1" "target_dtype (objs w c2) = Some t2" "t1 \<noteq> t2"
  shows "isl (fst (Float8LinearConfig_new p args w))"
proof -
  obtain r w' where res: "Float8LinearConfig_new p args w = (r, w')"
    by (cases "Float8LinearConfig_new p args w")
  from res have "isl r"
  proof (cases rule: post_init_cases)
    case fsdp
    then show ?thesis by simp
  next
    case (mismatch e)
    then show ?thesis by simp
  next
    case (success w1)
    from resolve_mismatch_fails [OF assms] success(2) show ?thesis by simp
  qed
  with res show ?thesis by simp
qed

subsection \<open>The checks on gemm operands and on the weight granularity\<close>

text \<open>
  Claim C1. Each gemm must have both operands disabled or both scaled. The loop of the source
  reads both flags from \<open>cc1\<close>, so the comparison is always true and no construction is
  refused for this reason: in the session above, \<^verbatim>\<open>Float8LinearConfig(cast_config_input=c4)\<close>
  pairs the disabled input \<open>c4\<close> with the dynamically scaled default weight in the output
  gemm, and the construction returns normally.
\<close>

theorem mixed_precision_output_accepted:
  "scaling_type (objs session_store 4) = DISABLED \<and>
   scaling_type (objs session_store 1) = DYNAMIC \<and>
   fst (Float8LinearConfig_new cuda_platform
          (Float8LinearConfig_defaults\<lparr>cast_config_input := 4\<rparr>) session_store)
     = Inr (Float8LinearConfig_defaults
              \<lparr>cast_config_input := 4,
               cast_config_input_for_grad_weight := Some 4,
               cast_config_weight_for_grad_input := Some 1,
               cast_config_grad_output_for_grad_weight := Some 2\<rparr>)"
  by (simp add: construction_defs session_defs)

text \<open>
  Claim C5. When the primary weight descriptor is not tensorwise and
  \<^verbatim>\<open>enable_fsdp_float8_all_gather\<close> is set, construction fails with the all-gather assertion
  and the store is untouched. Only that descriptor is inspected: when it is tensorwise
  the all-gather assertion is never the outcome, whatever the other descriptors are.
\<close>

theorem fsdp_requires_tensorwise_weight:
  "(scaling_granularity (objs w (cast_config_weight args)) \<noteq> TENSORWISE \<and>
    enable_fsdp_float8_all_gather args \<longrightarrow>
      Float8LinearConfig_new p args w =
        (Inl (AssertionError
           (fsdp_message (scaling_granularity (objs w (cast_config_weight args))))), w)) \<and>
   (scaling_granularity (objs w (cast_config_weight args)) = TENSORWISE \<longrightarrow>
      fst (Float8LinearConfig_new p args w) \<noteq> Inl (AssertionError (fsdp_message g)))"
proof (intro conjI impI)
  assume "scaling_granularity (objs w (cast_config_weight args)) \<noteq> TENSORWISE \<and>
    enable_fsdp_float8_all_gather args"
  then show "Float8LinearConfig_new p args w =
        (Inl (AssertionError
           (fsdp_message (scaling_granularity (objs w (cast_config_weight args))))), w)"
    using post_init_fsdp by blast
next
  assume ten: "scaling_granularity (objs w (cast_config_weight args)) = TENSORWISE"
  obtain r w' where res: "Float8LinearConfig_new p args w = (r, w')"
    by (cases "Float8LinearConfig_new p args w")
  from res have "r \<noteq> Inl (AssertionError (fsdp_message g))"
  proof (cases rule: post_init_cases)
    case fsdp
    with ten show ?thesis by simp
  next
    case (mismatch e)
    from resolve_error_message [OF mismatch(2)] obtain c1 c2 n d where
      mem: "(c1, c2, n, d) \<in> set (operand_casts p (populate_overrides args))"
      and e: "e = AssertionError (dtype_message n)" by auto
    from operand_casts_names [OF mem] have "dtype_message n \<noteq> fsdp_message g"
      by (rule messages_differ)
    with e mismatch(3) show ?thesis by simp
  next
    case (success w1)
    then show ?thesis by simp
  qed
  with res show "fst (Float8LinearConfig_new p args w) \<noteq> Inl (AssertionError (fsdp_message g))"
    by simp
qed

theorem fsdp_requires_tensorwise_weight_witness:
  "scaling_granularity (objs session_store 5) = AXISWISE \<and>
   Float8LinearConfig_new cuda_platform
     (Float8LinearConfig_defaults
        \<lparr>cast_config_weight := 5, enable_fsdp_float8_all_gather := True\<rparr>) session_store
     = (Inl (AssertionError (fsdp_message AXISWISE)), session_store) \<and>
   scaling_granularity (objs session_store 1) = TENSORWISE \<and>
   fst (Float8LinearConfig_new cuda_platform
     (Float8LinearConfig_defaults
        \<lparr>cast_config_input := 5, cast_config_grad_output := 5,
         cast_config_weight_for_grad_input := Some 5,
         enable_fsdp_float8_all_gather := True\<rparr>) session_store)
     \<noteq> Inl (AssertionError (fsdp_message AXISWISE)) \<and>
   fst (Float8LinearConfig_new cuda_platform
     (Float8LinearConfig_defaults
        \<lparr>cast_config_input := 5, cast_config_grad_output := 5,
         cast_config_weight_for_grad_input := Some 5,
         enable_fsdp_float8_all_gather := True\<rparr>) session_store)
     = Inr (Float8LinearConfig_defaults
        \<lparr>cast_config_input := 5, cast_config_grad_output := 5,
         cast_config_weight_for_grad_input := Some 5,
         enable_fsdp_float8_all_gather := True,
         cast_config_input_for_grad_weight := Some 5,
         cast_config_grad_output_for_grad_weight := Some 5\<rparr>)"
proof -
  let ?refused = "Float8LinearConfig_defaults
        \<lparr>cast_config_weight := 5, enable_fsdp_float8_all_gather := True\<rparr>"
  let ?accepted = "Float8LinearConfig_defaults
        \<lparr>cast_config_input := 5, cast_config_grad_output := 5,
         cast_config_weight_for_grad_input := Some 5,
         enable_fsdp_float8_all_gather := True\<rparr>"
  have 1: "scaling_granularity (objs session_store 5) = AXISWISE"
    by (simp add: session_defs Let_def)
  have 2: "scaling_granularity (objs session_store 1) = TENSORWISE"
    by (simp add: session_defs Let_def)
  have f: "cast_config_weight ?refused = 5" "enable_fsdp_float8_all_gather ?refused"
    "cast_config_weight ?accepted = 1"
    by (simp_all add: Float8LinearConfig_defaults_def)
  have a: "Float8LinearConfig_new cuda_platform ?refused session_store
             = (Inl (AssertionError (fsdp_message AXISWISE)), session_store)"
    using fsdp_requires_tensorwise_weight [of session_store ?refused cuda_platform, THEN conjunct1]
      1 f(1,2) by simp
  have b: "fst (Float8LinearConfig_new cuda_platform ?accepted session_store)
             \<noteq> Inl (AssertionError (fsdp_message AXISWISE))"
    using fsdp_requires_tensorwise_weight
      [of session_store ?accepted cuda_platform AXISWISE, THEN conjunct2] 2 f(3) by simp
  have c: "fst (Float8LinearConfig_new cuda_platform ?accepted session_store)
     = Inr (Float8LinearConfig_defaults
        \<lparr>cast_config_input := 5, cast_config_grad_output := 5,
         cast_config_weight_for_grad_input := Some 5,
         enable_fsdp_float8_all_gather := True,
         cast_config_input_for_grad_weight := Some 5,
         cast_config_grad_output_for_grad_weight := Some 5\<rparr>)"
    by (simp add: construction_defs session_defs)
  from 1 a 2 b c show ?thesis by (intro conjI)
qed

subsection \<open>The effects of construction\<close>






subsection \<open>Resolution of target types\<close>

text \<open>
  Claim C3 as stated does not hold when one descriptor object serves several operands:
  \<^verbatim>\<open>Float8LinearConfig(cast_config_input=c5, cast_config_weight=c5, cast_config_grad_output=c5)\<close>
  returns normally, and the unset target type of the grad_output descriptor \<open>c5\<close> is
  the e4m3 type written while the input operand was processed, not the e5m2 type.
\<close>

theorem shared_descriptor_gets_e4m3:
  "target_dtype (objs session_store 5) = None \<and>
   e5m2_dtype cuda_platform = float8_e5m2 \<and>
   fst (Float8LinearConfig_new cuda_platform
          (Float8LinearConfig_defaults
             \<lparr>cast_config_input := 5, cast_config_weight := 5, cast_config_grad_output := 5\<rparr>)
          session_store)
     = Inr (Float8LinearConfig_defaults
              \<lparr>cast_config_input := 5, cast_config_weight := 5, cast_config_grad_output := 5,
               cast_config_input_for_grad_weight := Some 5,
               cast_config_weight_for_grad_input := Some 5,
               cast_config_grad_output_for_grad_weight := Some 5\<rparr>) \<and>
   target_dtype (objs (snd (Float8LinearConfig_new cuda_platform
          (Float8LinearConfig_defaults
             \<lparr>cast_config_input := 5, cast_config_weight := 5, cast_config_grad_output := 5\<rparr>)
          session_store)) 5) = Some float8_e4m3fn"
  by (simp add: construction_defs session_defs)

text \<open>
  Claim C3, amended. After a successful construction the primary and the override descriptor
  of each operand carry the same target type; a target type that was set is kept; an unset
  target type of an input or weight descriptor is the preferred e4m3 type; an unset target
  type of a grad_output descriptor is the preferred e5m2 type, unless the same object is
  also an input or weight descriptor (it then has the e4m3 type it received there).
  Construction fails when the two descriptors of an operand have set target types that
  differ.
\<close>

theorem target_dtype_resolution:
  "(Float8LinearConfig_new p args w = (Inr cfg, w') \<longrightarrow>
      (\<exists>cc_i_gw cc_w_gi cc_go_gw.
         cast_config_input_for_grad_weight cfg = Some cc_i_gw \<and>
         cast_config_weight_for_grad_input cfg = Some cc_w_gi \<and>
         cast_config_grad_output_for_grad_weight cfg = Some cc_go_gw \<and>
         target_dtype (objs w' (cast_config_input cfg)) = target_dtype (objs w' cc_i_gw) \<and>
         target_dtype (objs w' (cast_config_weight cfg)) = target_dtype (objs w' cc_w_gi) \<and>
         target_dtype (objs w' (cast_config_grad_output cfg)) = target_dtype (objs w' cc_go_gw) \<and>
         (\<forall>a t. target_dtype (objs w a) = Some t \<longrightarrow> target_dtype (objs w' a) = Some t) \<and>
         (\<forall>a \<in> {cast_config_input cfg, cc_i_gw, cast_config_weight cfg, cc_w_gi}.
            target_dtype (objs w a) = None \<longrightarrow>
            target_dtype (objs w' a) = Some (e4m3_dtype p)) \<and>
         (\<forall>a \<in> {cast_config_grad_output cfg, cc_go_gw}
                 - {cast_config_input cfg, cc_i_gw, cast_config_weight cfg, cc_w_gi}.
            target_dtype (objs w a) = None \<longrightarrow>
            target_dtype (objs w' a) = Some (e5m2_dtype p)))) \<and>
   (\<forall>c1 c2 n d t1 t2.
      (c1, c2, n, d) \<in> set (operand_casts p (populate_overrides args)) \<and>
      target_dtype (objs w c1) = Some t1 \<and> target_dtype (objs w c2) = Some t2 \<and> t1 \<noteq> t2 \<longrightarrow>
      isl (fst (Float8LinearConfig_new p args w)))"
proof (intro conjI impI allI)
  assume ok: "Float8LinearConfig_new p args w = (Inr cfg, w')"
  define cc_i_gw where "cc_i_gw = (case cast_config_input_for_grad_weight args of
                            None \<Rightarrow> cast_config_input args | Some x \<Rightarrow> x)"
  define cc_w_gi where "cc_w_gi = (case cast_config_weight_for_grad_input args of
                            None \<Rightarrow> cast_config_weight args | Some x \<Rightarrow> x)"
  define cc_go_gw where "cc_go_gw = (case cast_config_grad_output_for_grad_weight args of
                            None \<Rightarrow> cast_config_grad_output args | Some x \<Rightarrow> x)"
  note r = construction_resolves_targets [OF ok refl refl refl cc_i_gw_def cc_w_gi_def cc_go_gw_def]
  from post_init_success(1) [OF ok] have cfg: "cfg = populate_overrides args" .
  have f: "cast_config_input cfg = cast_config_input args"
    "cast_config_weight cfg = cast_config_weight args"
    "cast_config_grad_output cfg = cast_config_grad_output args"
    "cast_config_input_for_grad_weight cfg = Some cc_i_gw"
    "cast_config_weight_for_grad_input cfg = Some cc_w_gi"
    "cast_config_grad_output_for_grad_weight cfg = Some cc_go_gw"
    by (simp_all add: cfg populate_overrides_primary populate_overrides_override
          cc_i_gw_def cc_w_gi_def cc_go_gw_def)
  show "\<exists>cc_i_gw cc_w_gi cc_go_gw.
         cast_config_input_for_grad_weight cfg = Some cc_i_gw \<and>
         cast_config_weight_for_grad_input cfg = Some cc_w_gi \<and>
         cast_config_grad_output_for_grad_weight cfg = Some cc_go_gw \<and>
         target_dtype (objs w' (cast_config_input cfg)) = target_dtype (objs w' cc_i_gw) \<and>
         target_dtype (objs w' (cast_config_weight cfg)) = target_dtype (objs w' cc_w_gi) \<and>
         target_dtype (objs w' (cast_config_grad_output cfg)) = target_dtype (objs w' cc_go_gw) \<and>
         (\<forall>a t. target_dtype (objs w a) = Some t \<longrightarrow> target_dtype (objs w' a) = Some t) \<and>
         (\<forall>a \<in> {cast_config_input cfg, cc_i_gw, cast_config_weight cfg, cc_w_gi}.
            target_dtype (objs w a) = None \<longrightarrow>
            target_dtype (objs w' a) = Some (e4m3_dtype p)) \<and>
         (\<forall>a \<in> {cast_config_grad_output cfg, cc_go_gw}
                 - {cast_config_input cfg, cc_i_gw, cast_config_weight cfg, cc_w_gi}.
            target_dtype (objs w a) = None \<longrightarrow>
            target_dtype (objs w' a) = Some (e5m2_dtype p))"
    unfolding f
  proof (rule exI [of _ cc_i_gw], rule exI [of _ cc_w_gi], rule exI [of _ cc_go_gw],
      intro conjI allI ballI impI)
    show "target_dtype (objs w' (cast_config_input args)) = target_dtype (objs w' cc_i_gw)"
      by (rule r(1))
    show "target_dtype (objs w' (cast_config_weight args)) = target_dtype (objs w' cc_w_gi)"
      by (rule r(2))
    show "target_dtype (objs w' (cast_config_grad_output args)) = target_dtype (objs w' cc_go_gw)"
      by (rule r(3))
    show "target_dtype (objs w' a) = Some t" if "target_dtype (objs w a) = Some t" for a t
      using that by (rule r(4))
    show "target_dtype (objs w' a) = Some (e4m3_dtype p)"
      if "a \<in> {cast_config_input args, cc_i_gw, cast_config_weight args, cc_w_gi}"
        "target_dtype (objs w a) = None" for a
      using that(2,1) by (rule r(5))
    show "target_dtype (objs w' a) = Some (e5m2_dtype p)"
      if "a \<in> {cast_config_grad_output args, cc_go_gw}
               - {cast_config_input args, cc_i_gw, cast_config_weight args, cc_w_gi}"
        "target_dtype (objs w a) = None" for a
    proof -
      from that(1) have "a \<notin> {cast_config_input args, cc_i_gw, cast_config_weight args, cc_w_gi}"
        "a \<in> {cast_config_grad_output args, cc_go_gw}" by blast+
      with that(2) show ?thesis by (rule r(6))
    qed
  qed simp_all
next
  fix c1 c2 n d t1 t2
  assume "(c1, c2, n, d) \<in> set (operand_casts p (populate_overrides args)) \<and>
      target_dtype (objs w c1) = Some t1 \<and> target_dtype (objs w c2) = Some t2 \<and> t1 \<noteq> t2"
  then show "isl (fst (Float8LinearConfig_new p args w))"
    using construction_mismatch_fails by blast
qed

theorem target_dtype_resolution_witness:
  "fst (Float8LinearConfig_new cuda_platform
          (Float8LinearConfig_defaults\<lparr>cast_config_input := 3, cast_config_grad_output := 6\<rparr>)
          session_store)
     = Inr (Float8LinearConfig_defaults
              \<lparr>cast_config_input := 3, cast_config_grad_output := 6,
               cast_config_input_for_grad_weight := Some 3,
               cast_config_weight_for_grad_input := Some 1,
               cast_config_grad_output_for_grad_weight := Some 6\<rparr>) \<and>
   target_dtype (objs session_store 3) = None \<and>
   target_dtype (objs (snd (Float8LinearConfig_new cuda_platform
          (Float8LinearConfig_defaults\<lparr>cast_config_input := 3, cast_config_grad_output := 6\<rparr>)
          session_store)) 3) = Some (e4m3_dtype cuda_platform) \<and>
   target_dtype (objs session_store 6) = Some float8_e5m2 \<and>
   target_dtype (objs (snd (Float8LinearConfig_new cuda_platform
          (Float8LinearConfig_defaults\<lparr>cast_config_input := 3, cast_config_grad_output := 6\<rparr>)
          session_store)) 6) = Some float8_e5m2 \<and>
   target_dtype (objs session_store 7) = Some float8_e4m3fn \<and>
   isl (fst (Float8LinearConfig_new cuda_platform
          (Float8LinearConfig_defaults
             \<lparr>cast_config_input := 6, cast_config_input_for_grad_weight := Some 7\<rparr>)
          session_store))"
proof -
  let ?args = "Float8LinearConfig_defaults\<lparr>cast_config_input := 3, cast_config_grad_output := 6\<rparr>"
  let ?cfg = "Float8LinearConfig_defaults
              \<lparr>cast_config_input := 3, cast_config_grad_output := 6,
               cast_config_input_for_grad_weight := Some 3,
               cast_config_weight_for_grad_input := Some 1,
               cast_config_grad_output_for_grad_weight := Some 6\<rparr>"
  let ?w' = "snd (Float8LinearConfig_new cuda_platform ?args session_store)"
  let ?bad = "Float8LinearConfig_defaults
             \<lparr>cast_config_input := 6, cast_config_input_for_grad_weight := Some 7\<rparr>"
  have 1: "fst (Float8LinearConfig_new cuda_platform ?args session_store) = Inr ?cfg"
    by (simp add: construction_defs session_defs)
  then have run: "Float8LinearConfig_new cuda_platform ?args session_store = (Inr ?cfg, ?w')"
    by (simp add: prod_eq_iff)
  have s: "target_dtype (objs session_store 3) = None"
    "target_dtype (objs session_store 6) = Some float8_e5m2"
    "target_dtype (objs session_store 7) = Some float8_e4m3fn"
    by (simp_all add: session_defs Let_def)
  have f: "cast_config_input ?cfg = 3"
    by (simp add: Float8LinearConfig_defaults_def)
  note ok = target_dtype_resolution [of cuda_platform ?args session_store ?cfg ?w',
      THEN conjunct1, THEN mp, OF run]
  have 3: "target_dtype (objs ?w' 3) = Some (e4m3_dtype cuda_platform)"
    using ok apply (elim exE conjE) using s(1) f apply simp done
  have 6: "target_dtype (objs ?w' 6) = Some float8_e5m2"
    using ok apply (elim exE conjE) using s(2) apply simp done
  have mem: "(6, 7, ''input'', e4m3_dtype cuda_platform)
      \<in> set (operand_casts cuda_platform (populate_overrides ?bad))"
    by (simp add: operand_casts_populated Float8LinearConfig_defaults_def)
  have ne: "float8_e5m2 \<noteq> float8_e4m3fn" by simp
  have bad: "isl (fst (Float8LinearConfig_new cuda_platform ?bad session_store))"
    by (rule target_dtype_resolution [of cuda_platform ?bad session_store ?cfg ?w',
          THEN conjunct2, rule_format, OF conjI [OF mem conjI [OF s(2) conjI [OF s(3) ne]]]])
  from 1 s 3 6 bad show ?thesis by (intro conjI)
qed

text \<open>
  Claim C6. Validation is idempotent: when a construction has succeeded, constructing again
  from the fields of the result (overrides populated) in the store it left (target types
  resolved) succeeds, returns the same fields and changes no object; only the deprecation
  warning is logged again when the flag is set.
\<close>

theorem revalidation_is_identity:
  assumes "Float8LinearConfig_new p args w = (Inr cfg, w')"
  shows "Float8LinearConfig_new p cfg w' =
           (Inr cfg,
            if force_recompute_fp8_weight_in_bwd cfg
            then w'\<lparr>logged := logged w' @ [deprecation_warning]\<rparr> else w')"
proof -
  from post_init_success [OF assms] obtain w1 where
    cfg: "cfg = populate_overrides args"
    and ok: "scaling_granularity (objs w (cast_config_weight args)) = TENSORWISE
            \<or> \<not> enable_fsdp_float8_all_gather args"
    and run: "resolve_target_dtypes (operand_casts p cfg) w = (Inr (), w1)"
    and objs: "objs w' = objs w1" by blast
  have pop: "populate_overrides cfg = cfg" by (simp add: cfg populate_overrides_idem)
  have "\<forall>(c1, c2, n, d) \<in> set (operand_casts p cfg).
      target_dtype (objs w' c1) = target_dtype (objs w' c2) \<and> target_dtype (objs w' c1) \<noteq> None"
    using resolve_success_resolved [OF run] objs by fastforce
  then have again: "resolve_target_dtypes (operand_casts p cfg) w' = (Inr (), w')"
    by (rule resolve_fixed)
  have "scaling_granularity (objs w' (cast_config_weight cfg))
          = scaling_granularity (objs w (cast_config_weight args))"
    using resolve_frame [OF run] objs by (simp add: cfg populate_overrides_primary)
  with ok have ok': "scaling_granularity (objs w' (cast_config_weight cfg)) = TENSORWISE
            \<or> \<not> enable_fsdp_float8_all_gather cfg"
    by (simp add: cfg populate_overrides_primary)
  from post_init_resolve [OF ok', of p] pop again show ?thesis by simp
qed

theorem revalidation_is_identity_witness:
  "fst (Float8LinearConfig_new cuda_platform
          (Float8LinearConfig_defaults\<lparr>cast_config_input := 5, cast_config_weight := 5\<rparr>)
          session_store)
     = Inr (Float8LinearConfig_defaults
              \<lparr>cast_config_input := 5, cast_config_weight := 5,
               cast_config_input_for_grad_weight := Some 5,
               cast_config_weight_for_grad_input := Some 5,
               cast_config_grad_output_for_grad_weight := Some 2\<rparr>) \<and>
   Float8LinearConfig_new cuda_platform
     (Float8LinearConfig_defaults
        \<lparr>cast_config_input := 5, cast_config_weight := 5,
         cast_config_input_for_grad_weight := Some 5,
         cast_config_weight_for_grad_input := Some 5,
         cast_config_grad_output_for_grad_weight := Some 2\<rparr>)
     (snd (Float8LinearConfig_new cuda_platform
          (Float8LinearConfig_defaults\<lparr>cast_config_input := 5, cast_config_weight := 5\<rparr>)
          session_store))
     = (Inr (Float8LinearConfig_defaults
              \<lparr>cast_config_input := 5, cast_config_weight := 5,
               cast_config_input_for_grad_weight := Some 5,
               cast_config_weight_for_grad_input := Some 5,
               cast_config_grad_output_for_grad_weight := Some 2\<rparr>),
        snd (Float8LinearConfig_new cuda_platform
          (Float8LinearConfig_defaults\<lparr>cast_config_input := 5, cast_config_weight := 5\<rparr>)
          session_store))"
proof -
  let ?args = "Float8LinearConfig_defaults\<lparr>cast_config_input := 5, cast_config_weight := 5\<rparr>"
  let ?cfg = "Float8LinearConfig_defaults
              \<lparr>cast_config_input := 5, cast_config_weight := 5,
               cast_config_input_for_grad_weight := Some 5,
               cast_config_weight_for_grad_input := Some 5,
               cast_config_grad_output_for_grad_weight := Some 2\<rparr>"
  let ?w' = "snd (Float8LinearConfig_new cuda_platform ?args session_store)"
  have 1: "fst (Float8LinearConfig_new cuda_platform ?args session_store) = Inr ?cfg"
    by (simp add: construction_defs session_defs)
  then have 2: "Float8LinearConfig_new cuda_platform ?args session_store = (Inr ?cfg, ?w')"
    by (simp add: prod_eq_iff)
  have 3: "\<not> force_recompute_fp8_weight_in_bwd ?cfg"
    by (simp add: Float8LinearConfig_defaults_def)
  from revalidation_is_identity [OF 2] 1 3 show ?thesis by simp
qed

subsection \<open>Recipes\<close>

lemma normalize_recipe_name_Str:
  "normalize_recipe_name (Str (recipe_value n)) = Inr n"
  by (cases n) (simp_all add: normalize_recipe_name_def recipe_of_value_def recipe_members_def)

lemma valid_names_eval:
  "map recipe_value recipe_members = [''tensorwise'', ''rowwise'', ''rowwise_with_gw_hp'']"
  by (simp add: recipe_members_def)

lemma str_list_valid_names:
  "str_list (map recipe_value recipe_members) = ''['tensorwise', 'rowwise', 'rowwise_with_gw_hp']''"
  by (simp add: recipe_members_def str_list_def repr_str_def)

lemma recipe_members_all: "set recipe_members = UNIV"
proof -
  have "n \<in> set recipe_members" for n by (cases n) (simp_all add: recipe_members_def)
  then show ?thesis by auto
qed

lemma normalize_rowwise: "normalize_recipe_name (Str ''rowwise'') = Inr RECIPE_ROWWISE"
  using normalize_recipe_name_Str [of RECIPE_ROWWISE] by simp

lemma normalize_rowwise_with_gw_hp:
  "normalize_recipe_name (Str ''rowwise_with_gw_hp'') = Inr RECIPE_ROWWISE_WITH_GW_HP"
  using normalize_recipe_name_Str [of RECIPE_ROWWISE_WITH_GW_HP] by simp

text \<open>
  Claim C7. \<^verbatim>\<open>from_recipe_name("rowwise")\<close> returns a configuration whose input, weight and
  grad_output descriptors are dynamic, axiswise and cast to the preferred e4m3 type, with
  \<^verbatim>\<open>round_scales_to_power_of_2\<close> set.
\<close>

theorem from_recipe_rowwise:
  "\<exists>cfg w'.
     from_recipe_name p (Str ''rowwise'') w = (Inr cfg, w') \<and>
     objs w' (cast_config_input cfg) =
       \<lparr>scaling_type = DYNAMIC, scaling_granularity = AXISWISE,
        target_dtype = Some (e4m3_dtype p)\<rparr> \<and>
     objs w' (cast_config_weight cfg) =
       \<lparr>scaling_type = DYNAMIC, scaling_granularity = AXISWISE,
        target_dtype = Some (e4m3_dtype p)\<rparr> \<and>
     objs w' (cast_config_grad_output cfg) =
       \<lparr>scaling_type = DYNAMIC, scaling_granularity = AXISWISE,
        target_dtype = Some (e4m3_dtype p)\<rparr> \<and>
     round_scales_to_power_of_2 cfg"
  by (simp add: from_recipe_name_def normalize_rowwise bind_def CastConfig_new_e4m3
        Float8LinearConfig_new_def Float8LinearConfig_post_init_def populate_overrides_def
        gemm_operands_def operand_casts_def Float8LinearConfig_defaults_def
        default_target_dtype_def setattr_target_dtype_def Let_def)

text \<open>
  Claim C8. \<^verbatim>\<open>from_recipe_name("rowwise_with_gw_hp")\<close> returns a configuration in which the
  input and grad_output descriptors used for grad_weight are disabled, the weight
  descriptor used for grad_input is tensorwise and the primary weight descriptor is
  axiswise.
\<close>

theorem from_recipe_rowwise_with_gw_hp:
  "\<exists>cfg w' cc_i_gw cc_go_gw cc_w_gi.
     from_recipe_name p (Str ''rowwise_with_gw_hp'') w = (Inr cfg, w') \<and>
     cast_config_input_for_grad_weight cfg = Some cc_i_gw \<and>
     scaling_type (objs w' cc_i_gw) = DISABLED \<and>
     cast_config_grad_output_for_grad_weight cfg = Some cc_go_gw \<and>
     scaling_type (objs w' cc_go_gw) = DISABLED \<and>
     cast_config_weight_for_grad_input cfg = Some cc_w_gi \<and>
     scaling_granularity (objs w' cc_w_gi) = TENSORWISE \<and>
     scaling_granularity (objs w' (cast_config_weight cfg)) = AXISWISE"
  by (simp add: from_recipe_name_def normalize_rowwise_with_gw_hp bind_def CastConfig_new_e4m3
        CastConfig_new_unset
        Float8LinearConfig_new_def Float8LinearConfig_post_init_def populate_overrides_def
        gemm_operands_def operand_casts_def Float8LinearConfig_defaults_def
        default_target_dtype_def setattr_target_dtype_def Let_def)

lemma resolve_same_pairs:
  "\<forall>(c1, c2, n, d) \<in> set l. c1 = c2 \<Longrightarrow> \<exists>w'. resolve_target_dtypes l w = (Inr (), w')"
proof (induction l arbitrary: w)
  case Nil
  then show ?case by simp
next
  case (Cons x rest)
  obtain c1 c2 n d where x: "x = (c1, c2, n, d)" by (cases x) auto
  with Cons.prems have same: "c1 = c2"
    and rest: "\<forall>(c1, c2, n, d) \<in> set rest. c1 = c2" by auto
  from Cons.IH [OF rest] obtain w' where
    "resolve_target_dtypes rest (default_target_dtype c2 d (default_target_dtype c1 d w))
       = (Inr (), w')" by blast
  with x same show ?case by (simp add: Let_def)
qed

lemma tensorwise_accepted:
  "\<exists>cfg w'. from_recipe_name p (Name RECIPE_TENSORWISE) w = (Inr cfg, w') \<and>
     \<not> round_scales_to_power_of_2 cfg \<and>
     cast_config_input_for_grad_weight cfg = Some (cast_config_input cfg)"
proof -
  have fsdp: "scaling_granularity (objs w (cast_config_weight Float8LinearConfig_defaults)) = TENSORWISE
      \<or> \<not> enable_fsdp_float8_all_gather Float8LinearConfig_defaults"
    by (simp add: Float8LinearConfig_defaults_def)
  have "\<forall>(c1, c2, n, d) \<in> set (operand_casts p (populate_overrides Float8LinearConfig_defaults)).
          c1 = c2"
    by (simp add: operand_casts_populated Float8LinearConfig_defaults_def)
  from resolve_same_pairs [OF this] obtain w1 where
    run: "resolve_target_dtypes (operand_casts p (populate_overrides Float8LinearConfig_defaults)) w
            = (Inr (), w1)" by blast
  have new: "Float8LinearConfig_new p Float8LinearConfig_defaults w
         = (Inr (populate_overrides Float8LinearConfig_defaults), w1)"
    using post_init_resolve [OF fsdp, of p] run
    by (simp add: Float8LinearConfig_defaults_def)
  have "from_recipe_name p (Name RECIPE_TENSORWISE) w
         = (Inr (populate_overrides Float8LinearConfig_defaults), w1)"
    using new by (simp add: from_recipe_name_def normalize_recipe_name_def)
  moreover have "\<not> round_scales_to_power_of_2 (populate_overrides Float8LinearConfig_defaults)"
    by (simp add: populate_overrides_def Float8LinearConfig_defaults_def Let_def)
  moreover have "cast_config_input_for_grad_weight (populate_overrides Float8LinearConfig_defaults)
      = Some (cast_config_input (populate_overrides Float8LinearConfig_defaults))"
    by (simp add: populate_overrides_def Float8LinearConfig_defaults_def Let_def)
  ultimately show ?thesis by blast
qed

lemma rowwise_accepted:
  "\<exists>cfg w'. from_recipe_name p (Name RECIPE_ROWWISE) w = (Inr cfg, w') \<and>
     round_scales_to_power_of_2 cfg \<and>
     cast_config_input_for_grad_weight cfg = Some (cast_config_input cfg)"
  by (simp add: from_recipe_name_def normalize_recipe_name_def bind_def CastConfig_new_e4m3
        Float8LinearConfig_new_def Float8LinearConfig_post_init_def populate_overrides_def
        gemm_operands_def operand_casts_def Float8LinearConfig_defaults_def
        default_target_dtype_def setattr_target_dtype_def Let_def)

lemma rowwise_with_gw_hp_accepted:
  "\<exists>cfg w'. from_recipe_name p (Name RECIPE_ROWWISE_WITH_GW_HP) w = (Inr cfg, w') \<and>
     \<not> round_scales_to_power_of_2 cfg \<and>
     cast_config_input_for_grad_weight cfg \<noteq> Some (cast_config_input cfg)"
  by (simp add: from_recipe_name_def normalize_recipe_name_def bind_def CastConfig_new_e4m3
        CastConfig_new_unset
        Float8LinearConfig_new_def Float8LinearConfig_post_init_def populate_overrides_def
        gemm_operands_def operand_casts_def Float8LinearConfig_defaults_def
        default_target_dtype_def setattr_target_dtype_def Let_def)

lemma every_recipe_accepted:
  "\<exists>cfg w'. from_recipe_name p (Name n) w = (Inr cfg, w') \<and>
     (round_scales_to_power_of_2 cfg \<longleftrightarrow> n = RECIPE_ROWWISE) \<and>
     (cast_config_input_for_grad_weight cfg = Some (cast_config_input cfg)
        \<longleftrightarrow> n \<noteq> RECIPE_ROWWISE_WITH_GW_HP)"
proof (cases n)
  case RECIPE_TENSORWISE
  with tensorwise_accepted [of p w] show ?thesis by auto
next
  case RECIPE_ROWWISE
  with rowwise_accepted [of p w] show ?thesis by auto
next
  case RECIPE_ROWWISE_WITH_GW_HP
  with rowwise_with_gw_hp_accepted [of p w] show ?thesis by auto
qed

text \<open>
  Claim C9. A string that is not the value of a recipe makes \<^verbatim>\<open>from_recipe_name\<close> fail with
  an assertion error whose message lists the three recipe values, which are the values of
  all members of the enumeration and nothing else. Every member and its value string are
  accepted: both return the same configuration, and it is the one of that recipe (only
  rowwise rounds scales to a power of two, only rowwise_with_gw_hp has an input override
  that differs from the primary input descriptor).
\<close>

theorem recipe_lookup_by_name:
  "((\<forall>n. recipe_value n \<noteq> s) \<longrightarrow>
      from_recipe_name p (Str s) w =
        (Inl (AssertionError
           (''recipe_name '' @ s @
            '' not in valid names ['tensorwise', 'rowwise', 'rowwise_with_gw_hp']'')), w)) \<and>
   map recipe_value recipe_members = [''tensorwise'', ''rowwise'', ''rowwise_with_gw_hp''] \<and>
   set recipe_members = UNIV \<and>
   normalize_recipe_name (Name n) = Inr n \<and>
   normalize_recipe_name (Str (recipe_value n)) = Inr n \<and>
   from_recipe_name p (Str (recipe_value n)) w = from_recipe_name p (Name n) w \<and>
   (\<exists>cfg w'.
      from_recipe_name p (Name n) w = (Inr cfg, w') \<and>
      from_recipe_name p (Str (recipe_value n)) w = (Inr cfg, w') \<and>
      (round_scales_to_power_of_2 cfg \<longleftrightarrow> n = RECIPE_ROWWISE) \<and>
      (cast_config_input_for_grad_weight cfg = Some (cast_config_input cfg)
         \<longleftrightarrow> n \<noteq> RECIPE_ROWWISE_WITH_GW_HP))"
proof -
  have bad: "from_recipe_name p (Str s) w =
        (Inl (AssertionError
           (''recipe_name '' @ s @
            '' not in valid names ['tensorwise', 'rowwise', 'rowwise_with_gw_hp']'')), w)"
    if "\<forall>n. recipe_value n \<noteq> s"
  proof -
    from that have "s \<notin> set (map recipe_value recipe_members)" by auto
    then have "normalize_recipe_name (Str s) =
        Inl (AssertionError (''recipe_name '' @ s @ '' not in valid names '' @
               str_list (map recipe_value recipe_members)))"
      by (simp add: normalize_recipe_name_def Let_def)
    then show ?thesis
      by (simp add: from_recipe_name_def str_list_valid_names)
  qed
  have name: "normalize_recipe_name (Name n) = Inr n"
    by (simp add: normalize_recipe_name_def)
  have same: "from_recipe_name p (Str (recipe_value n)) w = from_recipe_name p (Name n) w"
    by (simp only: from_recipe_name_def normalize_recipe_name_Str name)
  from every_recipe_accepted [of p n w] obtain cfg w' where
    acc: "from_recipe_name p (Name n) w = (Inr cfg, w')"
      "round_scales_to_power_of_2 cfg \<longleftrightarrow> n = RECIPE_ROWWISE"
      "cast_config_input_for_grad_weight cfg = Some (cast_config_input cfg)
         \<longleftrightarrow> n \<noteq> RECIPE_ROWWISE_WITH_GW_HP" by blast
  from acc(1) same have acc': "from_recipe_name p (Str (recipe_value n)) w = (Inr cfg, w')"
    by simp
  have ex: "\<exists>cfg w'.
      from_recipe_name p (Name n) w = (Inr cfg, w') \<and>
      from_recipe_name p (Str (recipe_value n)) w = (Inr cfg, w') \<and>
      (round_scales_to_power_of_2 cfg \<longleftrightarrow> n = RECIPE_ROWWISE) \<and>
      (cast_config_input_for_grad_weight cfg = Some (cast_config_input cfg)
         \<longleftrightarrow> n \<noteq> RECIPE_ROWWISE_WITH_GW_HP)"
    by (rule exI [of _ cfg], rule exI [of _ w']) (intro conjI acc acc')
  from bad valid_names_eval recipe_members_all name normalize_recipe_name_Str [of n] same ex
  show ?thesis by (intro conjI impI)
qed

theorem recipe_lookup_by_name_witness:
  "from_recipe_name cuda_platform (Str ''not_a_real_recipe'') module_import =
     (Inl (AssertionError
        ''recipe_name not_a_real_recipe not in valid names ['tensorwise', 'rowwise', 'rowwise_with_gw_hp']''),
      module_import) \<and>
   from_recipe_name cuda_platform (Str ''rowwise'') module_import =
     from_recipe_name cuda_platform (Name RECIPE_ROWWISE) module_import \<and>
   (\<exists>cfg w'.
      from_recipe_name cuda_platform (Name RECIPE_TENSORWISE) module_import = (Inr cfg, w') \<and>
      from_recipe_name cuda_platform (Str ''tensorwise'') module_import = (Inr cfg, w') \<and>
      \<not> round_scales_to_power_of_2 cfg \<and>
      cast_config_input_for_grad_weight cfg = Some (cast_config_input cfg))"
proof -
  have none: "\<forall>n. recipe_value n \<noteq> ''not_a_real_recipe''"
  proof
    fix n show "recipe_value n \<noteq> ''not_a_real_recipe''" by (cases n) simp_all
  qed
  note bad = recipe_lookup_by_name
    [of "''not_a_real_recipe''" cuda_platform module_import RECIPE_ROWWISE]
  note good = recipe_lookup_by_name
    [of "''not_a_real_recipe''" cuda_platform module_import RECIPE_TENSORWISE]
  have a: "from_recipe_name cuda_platform (Str ''not_a_real_recipe'') module_import =
     (Inl (AssertionError
        ''recipe_name not_a_real_recipe not in valid names ['tensorwise', 'rowwise', 'rowwise_with_gw_hp']''),
      module_import)"
    using bad [THEN conjunct1, THEN mp, OF none] by simp
  have b: "from_recipe_name cuda_platform (Str ''rowwise'') module_import =
     from_recipe_name cuda_platform (Name RECIPE_ROWWISE) module_import"
    using bad [THEN conjunct2, THEN conjunct2, THEN conjunct2, THEN conjunct2, THEN conjunct2,
               THEN conjunct1] by simp
  have c: "\<exists>cfg w'.
      from_recipe_name cuda_platform (Name RECIPE_TENSORWISE) module_import = (Inr cfg, w') \<and>
      from_recipe_name cuda_platform (Str ''tensorwise'') module_import = (Inr cfg, w') \<and>
      \<not> round_scales_to_power_of_2 cfg \<and>
      cast_config_input_for_grad_weight cfg = Some (cast_config_input cfg)"
    using good [THEN conjunct2, THEN conjunct2, THEN conjunct2, THEN conjunct2, THEN conjunct2,
                THEN conjunct2] by simp
  from a b c show ?thesis by (intro conjI)
qed

subsection \<open>Short labels\<close>

lemma short_str_resolved:
  "target_dtype cc = Some (e4m3_dtype p) \<or> target_dtype cc = Some (e5m2_dtype p) \<Longrightarrow>
   \<exists>s. CastConfig_short_str p cc = Inr s"
  using e4m3_neq_e5m2 [of p] by (auto simp: CastConfig_short_str_def)

text \<open>
  Claim C10. \<^verbatim>\<open>short_str\<close> of a descriptor whose target type is unset raises
  \<^verbatim>\<open>KeyError\<close>: the two-entry dictionary has no key \<^verbatim>\<open>None\<close>. So the descriptor that
  \<^verbatim>\<open>CastConfig()\<close> has just created cannot be labelled. Once a successful construction
  of a \<^verbatim>\<open>Float8LinearConfig\<close> has used it in one of its six roles, its target type is one
  of the two keys and \<^verbatim>\<open>short_str\<close> returns a label.
\<close>

theorem short_str_needs_target_dtype:
  "(target_dtype cc = None \<longrightarrow> CastConfig_short_str p cc = Inl KeyError) \<and>
   (CastConfig_new DYNAMIC TENSORWISE None w0 = (Inr c, w) \<longrightarrow>
      CastConfig_short_str p (objs w c) = Inl KeyError) \<and>
   (Float8LinearConfig_new p args w = (Inr cfg, w') \<and> target_dtype (objs w a) = None \<and>
    a \<in> {cast_config_input cfg, cast_config_weight cfg, cast_config_grad_output cfg}
          \<union> set_option (cast_config_input_for_grad_weight cfg)
          \<union> set_option (cast_config_weight_for_grad_input cfg)
          \<union> set_option (cast_config_grad_output_for_grad_weight cfg) \<longrightarrow>
      (\<exists>s. CastConfig_short_str p (objs w' a) = Inr s))"
proof (intro conjI impI)
  assume "target_dtype cc = None"
  then show "CastConfig_short_str p cc = Inl KeyError"
    by (simp add: CastConfig_short_str_def)
next
  assume "CastConfig_new DYNAMIC TENSORWISE None w0 = (Inr c, w)"
  then have "target_dtype (objs w c) = None"
    by (auto simp: CastConfig_new_def CastConfig_post_init_def Let_def)
  then show "CastConfig_short_str p (objs w c) = Inl KeyError"
    by (simp add: CastConfig_short_str_def)
next
  assume h: "Float8LinearConfig_new p args w = (Inr cfg, w') \<and> target_dtype (objs w a) = None \<and>
    a \<in> {cast_config_input cfg, cast_config_weight cfg, cast_config_grad_output cfg}
          \<union> set_option (cast_config_input_for_grad_weight cfg)
          \<union> set_option (cast_config_weight_for_grad_input cfg)
          \<union> set_option (cast_config_grad_output_for_grad_weight cfg)"
  then have ok: "Float8LinearConfig_new p args w = (Inr cfg, w')"
    and unset: "target_dtype (objs w a) = None" by blast+
  define cc_i_gw where "cc_i_gw = (case cast_config_input_for_grad_weight args of
                            None \<Rightarrow> cast_config_input args | Some x \<Rightarrow> x)"
  define cc_w_gi where "cc_w_gi = (case cast_config_weight_for_grad_input args of
                            None \<Rightarrow> cast_config_weight args | Some x \<Rightarrow> x)"
  define cc_go_gw where "cc_go_gw = (case cast_config_grad_output_for_grad_weight args of
                            None \<Rightarrow> cast_config_grad_output args | Some x \<Rightarrow> x)"
  note r = construction_resolves_targets [OF ok refl refl refl cc_i_gw_def cc_w_gi_def cc_go_gw_def]
  from post_init_success(1) [OF ok] have cfg: "cfg = populate_overrides args" .
  have f: "cast_config_input cfg = cast_config_input args"
    "cast_config_weight cfg = cast_config_weight args"
    "cast_config_grad_output cfg = cast_config_grad_output args"
    "cast_config_input_for_grad_weight cfg = Some cc_i_gw"
    "cast_config_weight_for_grad_input cfg = Some cc_w_gi"
    "cast_config_grad_output_for_grad_weight cfg = Some cc_go_gw"
    by (simp_all add: cfg populate_overrides_primary populate_overrides_override
          cc_i_gw_def cc_w_gi_def cc_go_gw_def)
  from h have mem: "a \<in> {cast_config_input args, cc_i_gw, cast_config_weight args, cc_w_gi} \<or>
      a \<in> {cast_config_grad_output args, cc_go_gw}"
    unfolding f by auto
  have "target_dtype (objs w' a) = Some (e4m3_dtype p) \<or>
        target_dtype (objs w' a) = Some (e5m2_dtype p)"
  proof (cases "a \<in> {cast_config_input args, cc_i_gw, cast_config_weight args, cc_w_gi}")
    case True
    from r(5) [OF unset True] show ?thesis by simp
  next
    case False
    with mem have "a \<in> {cast_config_grad_output args, cc_go_gw}" by blast
    from r(6) [OF unset False this] show ?thesis by simp
  qed
  then show "\<exists>s. CastConfig_short_str p (objs w' a) = Inr s"
    by (rule short_str_resolved)
qed

theorem short_str_needs_target_dtype_witness:
  "target_dtype (objs session_store 3) = None \<and>
   CastConfig_short_str cuda_platform (objs session_store 3) = Inl KeyError \<and>
   fst (Float8LinearConfig_new cuda_platform
          (Float8LinearConfig_defaults\<lparr>cast_config_input := 3\<rparr>) session_store)
     = Inr (Float8LinearConfig_defaults
              \<lparr>cast_config_input := 3,
               cast_config_input_for_grad_weight := Some 3,
               cast_config_weight_for_grad_input := Some 1,
               cast_config_grad_output_for_grad_weight := Some 2\<rparr>) \<and>
   (\<exists>s. CastConfig_short_str cuda_platform
          (objs (snd (Float8LinearConfig_new cuda_platform
             (Float8LinearConfig_defaults\<lparr>cast_config_input := 3\<rparr>) session_store)) 3) = Inr s)"
proof -
  let ?args = "Float8LinearConfig_defaults\<lparr>cast_config_input := 3\<rparr>"
  let ?cfg = "Float8LinearConfig_defaults
              \<lparr>cast_config_input := 3,
               cast_config_input_for_grad_weight := Some 3,
               cast_config_weight_for_grad_input := Some 1,
               cast_config_grad_output_for_grad_weight := Some 2\<rparr>"
  let ?w' = "snd (Float8LinearConfig_new cuda_platform ?args session_store)"
  note T = short_str_needs_target_dtype
    [of "objs session_store 3" cuda_platform empty_world 0 session_store ?args ?cfg ?w' 3]
  have unset: "target_dtype (objs session_store 3) = None"
    by (simp add: session_defs Let_def)
  have 1: "fst (Float8LinearConfig_new cuda_platform ?args session_store) = Inr ?cfg"
    by (simp add: construction_defs session_defs)
  then have run: "Float8LinearConfig_new cuda_platform ?args session_store = (Inr ?cfg, ?w')"
    by (simp add: prod_eq_iff)
  have mem: "3 \<in> {cast_config_input ?cfg, cast_config_weight ?cfg, cast_config_grad_output ?cfg}
          \<union> set_option (cast_config_input_for_grad_weight ?cfg)
          \<union> set_option (cast_config_weight_for_grad_input ?cfg)
          \<union> set_option (cast_config_grad_output_for_grad_weight ?cfg)"
    by (simp add: Float8LinearConfig_defaults_def)
  have a: "CastConfig_short_str cuda_platform (objs session_store 3) = Inl KeyError"
    by (rule T [THEN conjunct1, THEN mp, OF unset])
  have b: "\<exists>s. CastConfig_short_str cuda_platform (objs ?w' 3) = Inr s"
    by (rule T [THEN conjunct2, THEN conjunct2, THEN mp, OF conjI [OF run conjI [OF unset mem]]])
  from unset a 1 b show ?thesis by (intro conjI)
qed

end
